theory Spec2Isabelle
  imports Complex_Main "HOL-Library.Word" "HOL-Library.AList"
begin

unbundle bit_operations_syntax

section \<open>Data model\<close>

text \<open>
  A TypeScript \<open>string\<close> is a sequence of UTF-16 code units, which is what
  \<open>charCodeAt\<close> reads; \<open>utf16\<close> writes an ASCII literal in that form.

  A TypeScript \<open>number\<close> is an IEEE double. Its values are modelled as reals. In the
  column computation of \<open>buildFeatureMatrix\<close> the result on a constant column depends
  on how each operation rounds, so there every arithmetic operation is followed by
  \<open>toDouble\<close>, the rounding to 53 significant bits with ties to even. Everywhere else
  the arithmetic is carried out exactly. The exponent range of doubles (overflow, subnormal
  numbers) and the values NaN and Infinity are outside this model.
\<close>

type_synonym js_string = "16 word list"

definition utf16 :: "string \<Rightarrow> js_string" where
  "utf16 s = map of_char s"

text \<open>\<open>RawTrack\<close> of \<open>lib/spotify\<close>; a nullable string is an option.\<close>

record RawTrack =
  id_track :: js_string
  name :: js_string
  uri :: "js_string option"
  artists :: "js_string list"
  albumName :: js_string
  albumArtUrl :: "js_string option"
  externalUrl :: "js_string option"
  previewUrl :: "js_string option"

text \<open>\<open>TrackAudioFeatures\<close> of \<open>lib/types\<close>.\<close>

record TrackAudioFeatures =
  id_feat :: js_string
  danceability :: real
  energy :: real
  key :: real
  loudness :: real
  mode :: real
  speechiness :: real
  acousticness :: real
  instrumentalness :: real
  liveness :: real
  valence :: real
  tempo :: real
  time_signature :: real

type_synonym vec3 = "real \<times> real \<times> real"

text \<open>\<open>SphereTrack\<close> repeats the eight fields of \<open>RawTrack\<close> and adds three.\<close>

record SphereTrack = RawTrack +
  features :: TrackAudioFeatures
  vector :: "real list"
  position :: vec3

record SemanticAxes =
  energy_axis :: vec3
  tempo_axis :: vec3
  valence_axis :: vec3
  acousticness_axis :: vec3

record SpherePayload =
  generatedAt :: js_string
  trackCount :: nat
  tracks :: "SphereTrack list"
  semanticAxes :: SemanticAxes

section \<open>Rounding to double precision\<close>

text \<open>
  \<open>rne\<close> rounds a real to the nearest integer, a tie to the even neighbour.
  \<open>toDouble x\<close> scales \<open>x\<close> by the power of two that brings its absolute value
  into the range from \<open>2^52\<close> up to \<open>2^53\<close>, rounds with \<open>rne\<close> and scales back: the
  double nearest to \<open>x\<close>, were the exponent unbounded.
\<close>

definition rne :: "real \<Rightarrow> int" where
  "rne m =
     (let f = \<lfloor>m\<rfloor>; r = m - of_int f
      in if r < 1 / 2 then f else if r > 1 / 2 then f + 1 else if even f then f else f + 1)"

definition toDouble :: "real \<Rightarrow> real" where
  "toDouble x =
     (if x = 0 then 0
      else let e = \<lfloor>log 2 \<bar>x\<bar>\<rfloor> - 52 in of_int (rne (x / 2 powi e)) * 2 powi e)"

section \<open>Embedding (\<open>lib/embedding\<close>)\<close>

datatype FeatureKey =
  Energy | Tempo | Valence | Danceability | Acousticness | Instrumentalness
  | Speechiness | Liveness

definition FEATURE_KEYS :: "FeatureKey list" where
  "FEATURE_KEYS =
     [Energy, Tempo, Valence, Danceability, Acousticness, Instrumentalness,
      Speechiness, Liveness]"

text \<open>
  \<open>dot\<close> walks the indices of its first argument. Reading \<open>b[index]\<close> beyond the end
  of \<open>b\<close> gives \<open>undefined\<close> and a NaN sum in the source; \<open>magnitude\<close>, the only
  caller modelled here, passes the same array twice, so the read is always in range.
\<close>

definition dot :: "real list \<Rightarrow> real list \<Rightarrow> real" where
  "dot a b = foldl (\<lambda>sum index. sum + a ! index * b ! index) 0 [0..<length a]"

definition magnitude :: "real list \<Rightarrow> real" where
  "magnitude v = sqrt (dot v v)"

definition normalize :: "real list \<Rightarrow> real list" where
  "normalize v =
     (let mag = magnitude v
      in if mag = 0 then map (\<lambda>_. 0) v else map (\<lambda>value. value / mag) v)"

text \<open>\<open>vector[k] ?? 0\<close>: a missing entry reads as 0.\<close>

definition entry_or_zero :: "real list \<Rightarrow> nat \<Rightarrow> real" where
  "entry_or_zero v k = (if k < length v then v ! k else 0)"

definition vectorToTuple3 :: "real list \<Rightarrow> vec3" where
  "vectorToTuple3 v = (entry_or_zero v 0, entry_or_zero v 1, entry_or_zero v 2)"

definition tuple3_list :: "vec3 \<Rightarrow> real list" where
  "tuple3_list p = (case p of (x, y, z) \<Rightarrow> [x, y, z])"

text \<open>
  \<open>percentile\<close>; its argument \<open>sorted\<close> is named \<open>srt\<close> here. It reads the array
  at \<open>lower\<close> and \<open>upper\<close>: for the two percentiles the callers pass both indices are
  within the array (lemmas \<open>percentile_indices_low\<close> and
  \<open>percentile_indices_high\<close> below).
\<close>

definition percentile :: "real list \<Rightarrow> real \<Rightarrow> real" where
  "percentile srt p =
     (if length srt = 0 then 0
      else
        let index = toDouble ((real (length srt) - 1) * p);
            lower = \<lfloor>index\<rfloor>;
            upper = \<lceil>index\<rceil>
        in if lower = upper then srt ! nat lower
           else
             let weight = toDouble (index - of_int lower)
             in toDouble (toDouble (srt ! nat lower * toDouble (1 - weight))
                            + toDouble (srt ! nat upper * weight)))"

definition clamp :: "real \<Rightarrow> real \<Rightarrow> real \<Rightarrow> real" where
  "clamp v lo hi = max lo (min hi v)"

definition featureValue :: "FeatureKey \<Rightarrow> TrackAudioFeatures \<Rightarrow> real" where
  "featureValue k f =
     (case k of
        Energy \<Rightarrow> energy f
      | Tempo \<Rightarrow> toDouble (tempo f / 220)
      | Valence \<Rightarrow> valence f
      | Danceability \<Rightarrow> danceability f
      | Acousticness \<Rightarrow> acousticness f
      | Instrumentalness \<Rightarrow> instrumentalness f
      | Speechiness \<Rightarrow> speechiness f
      | Liveness \<Rightarrow> liveness f)"

text \<open>
  The body of the per-key callback of \<open>buildFeatureMatrix\<close>, one definition per
  \<open>const\<close> of the source so that statements can name the intermediate values. The
  literals \<open>0.02\<close> and \<open>0.98\<close> are the doubles nearest to them. \<open>(v - mean) ** 2\<close>
  is taken as the rounded product of the rounded difference with itself.
\<close>

definition columnLow :: "real list \<Rightarrow> real" where
  "columnLow values = percentile (sort values) (toDouble (2 / 100))"

definition columnHigh :: "real list \<Rightarrow> real" where
  "columnHigh values = percentile (sort values) (toDouble (98 / 100))"

definition columnClamped :: "real list \<Rightarrow> real list" where
  "columnClamped values = map (\<lambda>v. clamp v (columnLow values) (columnHigh values)) values"

definition columnMean :: "real list \<Rightarrow> real" where
  "columnMean values =
     (let clamped = columnClamped values
      in toDouble (foldl (\<lambda>sum v. toDouble (sum + v)) 0 clamped
                     / max (real (length clamped)) 1))"

definition columnVariance :: "real list \<Rightarrow> real" where
  "columnVariance values =
     (let clamped = columnClamped values; mean = columnMean values
      in toDouble
           (foldl (\<lambda>sum v. toDouble (sum + toDouble (toDouble (v - mean) * toDouble (v - mean))))
              0 clamped
            / max (real (length clamped) - 1) 1))"

text \<open>\<open>Math.sqrt(variance) || 1\<close>: a square root that rounds to zero is replaced by 1.\<close>

definition columnSd :: "real list \<Rightarrow> real" where
  "columnSd values =
     (if toDouble (sqrt (columnVariance values)) = 0 then 1
      else toDouble (sqrt (columnVariance values)))"

definition standardizeColumn :: "real list \<Rightarrow> real list" where
  "standardizeColumn values =
     map (\<lambda>v. toDouble (toDouble (v - columnMean values) / columnSd values))
       (columnClamped values)"

definition columnValues :: "FeatureKey \<Rightarrow> TrackAudioFeatures list \<Rightarrow> real list" where
  "columnValues k fs = map (featureValue k) fs"

definition buildFeatureMatrix :: "TrackAudioFeatures list \<Rightarrow> real list list" where
  "buildFeatureMatrix fs =
     (let columns = map (\<lambda>k. standardizeColumn (columnValues k fs)) FEATURE_KEYS
      in map (\<lambda>rowIndex. map (\<lambda>column. column ! rowIndex) columns) [0..<length fs])"

definition simplePositionFromEnergyValence :: "TrackAudioFeatures \<Rightarrow> vec3" where
  "simplePositionFromEnergyValence f =
     (let x = (valence f * 2 - 1) * (92 / 100);
          y = (energy f * 2 - 1) * (92 / 100);
          maxRadius = 96 / 100;
          radius = sqrt (x * x + y * y);
          scale = maxRadius / radius;
          x' = (if radius > maxRadius then x * scale else x);
          y' = (if radius > maxRadius then y * scale else y);
          z = sqrt (max 0 (1 - x' * x' - y' * y'))
      in (x', y', z))"

definition fibonacciSpherePoint :: "nat \<Rightarrow> nat \<Rightarrow> vec3" where
  "fibonacciSpherePoint index tot =
     (let n = max (real tot) 1;
          i = real index + 1 / 2;
          phi = arccos (1 - (2 * i) / n);
          theta = pi * (1 + sqrt 5) * i;
          x = cos theta * sin phi;
          y = sin theta * sin phi;
          z = cos phi
      in (x, y, z))"

text \<open>
  \<open>Math.sin(seed) * 10000\<close> and its fractional part.
\<close>

definition seededUnit :: "real \<Rightarrow> real" where
  "seededUnit seed = (let x = sin seed * 10000 in x - of_int \<lfloor>x\<rfloor>)"

text \<open>
  \<open>hash ^= input.charCodeAt(i)\<close> and \<open>Math.imul\<close> work on 32-bit integers, and
  \<open>hash >>> 0\<close> reads the result as unsigned: a \<open>32 word\<close> read with \<open>unat\<close>.
\<close>

definition hashStep :: "32 word \<Rightarrow> 16 word \<Rightarrow> 32 word" where
  "hashStep hash c = (hash XOR ucast c) * 16777619"

definition hashString :: "js_string \<Rightarrow> nat" where
  "hashString input = unat (foldl hashStep 2166136261 input)"

text \<open>\<open>Array.prototype.join\<close>.\<close>

fun join :: "js_string \<Rightarrow> js_string list \<Rightarrow> js_string" where
  "join sep [] = []"
| "join sep [x] = x"
| "join sep (x # y # ys) = x @ sep @ join sep (y # ys)"

definition fallbackFeaturesFromTrack :: "'a RawTrack_scheme \<Rightarrow> TrackAudioFeatures" where
  "fallbackFeaturesFromTrack track =
     (let base = real (hashString
                   (id_track track @ utf16 '':'' @ name track @ utf16 '':''
                      @ join (utf16 '','') (artists track)));
          u1 = seededUnit (base + 11);
          u2 = seededUnit (base + 23);
          u3 = seededUnit (base + 37);
          u4 = seededUnit (base + 53);
          u5 = seededUnit (base + 71);
          u6 = seededUnit (base + 89);
          u7 = seededUnit (base + 101);
          u8 = seededUnit (base + 131)
      in \<lparr> id_feat = id_track track,
           danceability = u1,
           energy = u2,
           key = of_int \<lfloor>u3 * 12\<rfloor>,
           loudness = - 60 + u4 * 60,
           mode = (if u5 > 1 / 2 then 1 else 0),
           speechiness = u6,
           acousticness = u7,
           instrumentalness = u8,
           liveness = seededUnit (base + 149),
           valence = seededUnit (base + 167),
           tempo = 70 + seededUnit (base + 191) * 110,
           time_signature = 4 \<rparr>)"

text \<open>
  \<open>ensureVisiblePositions\<close>. The counting loop, the indexed \<open>map\<close> calls and the two
  \<open>reduce\<close> calls are kept as they are written.
\<close>

definition zeroCount :: "real list list \<Rightarrow> nat" where
  "zeroCount rawPositions =
     foldl (\<lambda>count pos. if magnitude pos < 1 / 10 ^ 6 then count + 1 else count) 0
       rawPositions"

definition mostlyCollapsed :: "real list list \<Rightarrow> bool" where
  "mostlyCollapsed rawPositions \<longleftrightarrow>
     real (zeroCount rawPositions) > real (length rawPositions) * (3 / 10)"

definition fibonacciLayout :: "nat \<Rightarrow> vec3 list" where
  "fibonacciLayout n = map (\<lambda>index. fibonacciSpherePoint index n) [0..<n]"

definition normalizedPositions :: "real list list \<Rightarrow> vec3 list" where
  "normalizedPositions rawPositions =
     map (\<lambda>index.
            let pos = rawPositions ! index
            in if magnitude pos < 1 / 10 ^ 6
               then fibonacciSpherePoint index (length rawPositions)
               else vectorToTuple3 (normalize pos))
       [0..<length rawPositions]"

definition centroid :: "vec3 list \<Rightarrow> vec3" where
  "centroid normalized =
     (case foldl (\<lambda>acc p. (fst acc + fst p, fst (snd acc) + fst (snd p),
                              snd (snd acc) + snd (snd p))) (0, 0, 0) normalized
      of (sx, sy, sz) \<Rightarrow>
        (sx / max (real (length normalized)) 1,
         sy / max (real (length normalized)) 1,
         sz / max (real (length normalized)) 1))"

definition avgDist :: "vec3 list \<Rightarrow> real" where
  "avgDist normalized =
     (let c = centroid normalized
      in foldl (\<lambda>sum p.
                  let dx = fst p - fst c;
                      dy = fst (snd p) - fst (snd c);
                      dz = snd (snd p) - snd (snd c)
                  in sum + sqrt (dx * dx + dy * dy + dz * dz)) 0 normalized
           / max (real (length normalized)) 1)"

definition ensureVisiblePositions :: "real list list \<Rightarrow> vec3 list" where
  "ensureVisiblePositions rawPositions =
     (if mostlyCollapsed rawPositions then fibonacciLayout (length rawPositions)
      else
        let normalized = normalizedPositions rawPositions
        in if avgDist normalized < 22 / 100 then fibonacciLayout (length normalized)
           else normalized)"

text \<open>
  \<open>createSpherePayload\<close>. The two \<open>new Date().toISOString()\<close> calls read the clock;
  the string they produce is the parameter \<open>now\<close>. \<open>featureMap.get(id) ?? fallback\<close>
  is the case distinction on the lookup. The \<open>filter(Boolean)\<close> that follows keeps every
  element, since each is an object, and is left out.
\<close>

definition mergedFeatures ::
  "RawTrack list \<Rightarrow> (js_string \<rightharpoonup> TrackAudioFeatures) \<Rightarrow> (RawTrack \<times> TrackAudioFeatures) list"
where
  "mergedFeatures rawTracks featureMap =
     map (\<lambda>track.
            (track, case featureMap (id_track track) of
                      Some f \<Rightarrow> f
                    | None \<Rightarrow> fallbackFeaturesFromTrack track))
       rawTracks"

definition createSpherePayload ::
  "js_string \<Rightarrow> RawTrack list \<Rightarrow> (js_string \<rightharpoonup> TrackAudioFeatures) \<Rightarrow> SpherePayload"
where
  "createSpherePayload now rawTracks featureMap =
     (let merged = mergedFeatures rawTracks featureMap
      in if length merged = 0 then
           \<lparr> generatedAt = now, trackCount = 0, tracks = [],
             semanticAxes = \<lparr> energy_axis = (0, 1, 0), tempo_axis = (1, 0, 0),
                               valence_axis = (0, 0, 1), acousticness_axis = (- 1, 0, 0) \<rparr> \<rparr>
         else
           let featureMatrix = buildFeatureMatrix (map snd merged);
               positions = map (\<lambda>item. simplePositionFromEnergyValence (snd item)) merged;
               axes = \<lparr> energy_axis = (0, 1, 0), tempo_axis = (0, 0, 1),
                        valence_axis = (1, 0, 0), acousticness_axis = (- 1, 0, 0) \<rparr>;
               trks = map (\<lambda>index.
                             let item = merged ! index
                             in \<lparr> id_track = id_track (fst item),
                                  name = name (fst item),
                                  uri = uri (fst item),
                                  artists = artists (fst item),
                                  albumName = albumName (fst item),
                                  albumArtUrl = albumArtUrl (fst item),
                                  externalUrl = externalUrl (fst item),
                                  previewUrl = previewUrl (fst item),
                                  features = snd item,
                                  vector = featureMatrix ! index,
                                  position = positions ! index \<rparr>)
                        [0..<length merged]
           in \<lparr> generatedAt = now, trackCount = length trks, tracks = trks,
                semanticAxes = axes \<rparr>)"

section \<open>HTTP helpers (\<open>lib/http\<close>)\<close>

text \<open>
  What the client reads of a \<open>Response\<close>: the status, the \<open>retry-after\<close> header as
  \<open>headers.get\<close> returns it (\<open>None\<close> for \<open>null\<close>), the body as text and the body as
  parsed JSON of the type the caller expects. \<open>response.ok\<close> is a status from 200 to 299.
\<close>

record 'a Response =
  status :: nat
  retryAfter :: "js_string option"
  bodyText :: js_string
  bodyJson :: 'a

definition ok :: "('a, 'b) Response_scheme \<Rightarrow> bool" where
  "ok response \<longleftrightarrow> 200 \<le> status response \<and> status response \<le> 299"

text \<open>The decimal digits of a status code, as a template literal prints a number.\<close>

function decimal :: "nat \<Rightarrow> js_string" where
  "decimal n =
     (if n < 10 then [of_nat (48 + n)] else decimal (n div 10) @ [of_nat (48 + n mod 10)])"
  by pat_completeness auto
termination
  by (relation "measure (\<lambda>n. n)") auto

declare decimal.simps [simp del]



text \<open>The message of the error \<open>safeJson\<close> throws for a response that is not ok.\<close>

definition httpErrorMessage :: "nat \<Rightarrow> js_string \<Rightarrow> js_string" where
  "httpErrorMessage st body = utf16 ''HTTP '' @ decimal st @ utf16 '': '' @ body"

text \<open>A thrown error is \<open>Inl\<close> of its message.\<close>

definition safeJson :: "'a Response \<Rightarrow> js_string + 'a" where
  "safeJson response =
     (if \<not> ok response then Inl (httpErrorMessage (status response) (bodyText response))
      else Inr (bodyJson response))"



section \<open>Spotify client (\<open>lib/spotify\<close>)\<close>

definition MAX_RETRIES :: nat where
  "MAX_RETRIES = 1"

definition DEFAULT_RATE_LIMIT_DELAY_MS :: real where
  "DEFAULT_RATE_LIMIT_DELAY_MS = 20000"

definition MAX_RATE_LIMIT_DELAY_MS :: real where
  "MAX_RATE_LIMIT_DELAY_MS = 180000"

text \<open>
  The result of \<open>Number(string)\<close>: a finite number, NaN or an infinity. The conversion
  itself is a built-in of the language and is a parameter \<open>toNumber\<close> of the functions
  that call it.
\<close>

datatype js_number = Num real | NaN | PosInf | NegInf

subsection \<open>Shared rate-limit state and the clock\<close>

text \<open>
  The module variable \<open>spotifyRateLimitedUntil\<close> is a field of the state.
  \<open>Date.now()\<close> reads a clock: \<open>clock k\<close> is the value of the \<open>k\<close>-th read since the module was loaded,
  and \<open>reads\<close> counts the reads made so far. \<open>sleeps\<close> records the argument of every
  \<open>sleep\<close> call, latest last; the time a sleep takes shows in the later clock reads.
\<close>

record fetch_state =
  spotifyRateLimitedUntil :: real
  reads :: nat
  sleeps :: "real list"

definition initial_state :: fetch_state where
  "initial_state = \<lparr> spotifyRateLimitedUntil = 0, reads = 0, sleeps = [] \<rparr>"

definition dateNow :: "(nat \<Rightarrow> real) \<Rightarrow> fetch_state \<Rightarrow> real \<times> fetch_state" where
  "dateNow clock s = (clock (reads s), s\<lparr>reads := reads s + 1\<rparr>)"

definition sleep :: "real \<Rightarrow> fetch_state \<Rightarrow> fetch_state" where
  "sleep ms s = s\<lparr>sleeps := sleeps s @ [ms]\<rparr>"

definition retryAfterSeconds :: "(js_string \<Rightarrow> js_number) \<Rightarrow> ('a, 'b) Response_scheme \<Rightarrow> real option" where
  \<comment> \<open>the guard shared by \<open>retryDelayMs\<close> and \<open>rateLimitDelayMs\<close>: a non-empty header whose
      number is finite and not negative\<close>
  "retryAfterSeconds toNumber response =
     (case retryAfter response of
        None \<Rightarrow> None
      | Some header \<Rightarrow>
          if header = [] then None
          else (case toNumber header of
                  Num seconds \<Rightarrow> if seconds \<ge> 0 then Some seconds else None
                | _ \<Rightarrow> None))"

definition retryDelayMs ::
  "(js_string \<Rightarrow> js_number) \<Rightarrow> real \<Rightarrow> ('a, 'b) Response_scheme \<Rightarrow> nat \<Rightarrow> real"
where
  \<comment> \<open>\<open>random\<close> is the value of \<open>Math.random()\<close>\<close>
  "retryDelayMs toNumber random response attempt =
     (case retryAfterSeconds toNumber response of
        Some seconds \<Rightarrow> min MAX_RATE_LIMIT_DELAY_MS (of_int \<lceil>seconds * 1000\<rceil>)
      | None \<Rightarrow>
          let base = 500;
              backoff = base * 2 ^ attempt;
              jitter = of_int \<lfloor>random * 250\<rfloor>
          in min 3500 (backoff + jitter))"

fun clampRateLimitDelayMs :: "js_number \<Rightarrow> real" where
  "clampRateLimitDelayMs (Num v) =
     (if v \<le> 0 then DEFAULT_RATE_LIMIT_DELAY_MS
      else max 1000 (min MAX_RATE_LIMIT_DELAY_MS (of_int \<lceil>v\<rceil>)))"
| "clampRateLimitDelayMs _ = DEFAULT_RATE_LIMIT_DELAY_MS"

definition normalizeRateLimitRemainingMs ::
  "(nat \<Rightarrow> real) \<Rightarrow> fetch_state \<Rightarrow> real \<times> fetch_state"
where
  "normalizeRateLimitRemainingMs clock s =
     (let (t1, s1) = dateNow clock s;
          remaining = spotifyRateLimitedUntil s1 - t1
      in if remaining \<le> 0 then (0, s1\<lparr>spotifyRateLimitedUntil := 0\<rparr>)
         else
           let clamped = min MAX_RATE_LIMIT_DELAY_MS remaining;
               (t2, s2) = dateNow clock s1
           in (clamped, s2\<lparr>spotifyRateLimitedUntil := t2 + clamped\<rparr>))"

definition rateLimitDelayMs :: "(js_string \<Rightarrow> js_number) \<Rightarrow> ('a, 'b) Response_scheme \<Rightarrow> real" where
  "rateLimitDelayMs toNumber response =
     (case retryAfterSeconds toNumber response of
        Some seconds \<Rightarrow> clampRateLimitDelayMs (Num (seconds * 1000))
      | None \<Rightarrow> DEFAULT_RATE_LIMIT_DELAY_MS)"

text \<open>
  The block of \<open>fetchWithRetry\<close> guarded by \<open>response.status === 429\<close>: it computes the
  delay, normalizes the pending cool-down, reads the clock and stores the new deadline.
\<close>

definition noteRateLimited ::
  "(nat \<Rightarrow> real) \<Rightarrow> (js_string \<Rightarrow> js_number) \<Rightarrow> ('a, 'b) Response_scheme \<Rightarrow> fetch_state \<Rightarrow> fetch_state"
where
  "noteRateLimited clock toNumber response s =
     (let delay = rateLimitDelayMs toNumber response;
          (currentRemaining, s1) = normalizeRateLimitRemainingMs clock s;
          (now, s2) = dateNow clock s1
      in s2\<lparr>spotifyRateLimitedUntil := now + max currentRemaining delay\<rparr>)"

text \<open>
  What \<open>fetch\<close> does on one attempt: it answers, or it rejects (a network failure, or the
  abort after \<open>REQUEST_TIMEOUT_MS\<close>) with an error message.
\<close>

datatype 'a fetch_result = Responded "'a Response" | Rejected js_string

text \<open>
  \<open>fetchWithRetry\<close>: the loop over \<open>attempt = 0 .. MAX_RETRIES\<close>. \<open>net attempt\<close> is what
  \<open>fetch\<close> does on that attempt and \<open>random\<close> the value of \<open>Math.random()\<close>. The result
  is the response returned or the message of the error thrown, with the state left behind.
\<close>

function fetchLoop ::
  "(nat \<Rightarrow> real) \<Rightarrow> (js_string \<Rightarrow> js_number) \<Rightarrow> real \<Rightarrow> (nat \<Rightarrow> 'a fetch_result)
     \<Rightarrow> nat \<Rightarrow> 'a Response option \<Rightarrow> js_string option \<Rightarrow> fetch_state
     \<Rightarrow> (js_string + 'a Response option) \<times> fetch_state"
where
  "fetchLoop clock toNumber random net attempt lastResponse lastError s =
     (if attempt \<le> MAX_RETRIES then
        let (waitMs, s1) = normalizeRateLimitRemainingMs clock s;
            s2 = (if waitMs > 0 then sleep waitMs s1 else s1)
        in (case net attempt of
              Responded response \<Rightarrow>
                if ok response then (Inr (Some response), s2\<lparr>spotifyRateLimitedUntil := 0\<rparr>)
                else
                  let s3 = (if status response = 429
                            then noteRateLimited clock toNumber response s2 else s2);
                      retryable = (status response = 429 \<or> status response \<ge> 500)
                  in if \<not> retryable \<or> attempt = MAX_RETRIES then (Inr (Some response), s3)
                     else
                       let nextDelay = (if status response = 429
                                        then rateLimitDelayMs toNumber response
                                        else retryDelayMs toNumber random response attempt)
                       in fetchLoop clock toNumber random net (attempt + 1) (Some response)
                            lastError (sleep nextDelay s3)
            | Rejected message \<Rightarrow>
                if attempt = MAX_RETRIES
                then (Inl (utf16 ''Spotify request failed: '' @ message), s2)
                else fetchLoop clock toNumber random net (attempt + 1) lastResponse
                       (Some message) (sleep (400 + real attempt * 250) s2))
      else (case lastError of
              Some message \<Rightarrow> (Inl (utf16 ''Spotify request failed: '' @ message), s)
            | None \<Rightarrow> (Inr lastResponse, s)))"
  by pat_completeness auto
termination
  by (relation "measure (\<lambda>(clock, toNumber, random, net, attempt, lastResponse, lastError, s).
        Suc MAX_RETRIES - attempt)") auto

declare fetchLoop.simps [simp del]

definition fetchWithRetry ::
  "(nat \<Rightarrow> real) \<Rightarrow> (js_string \<Rightarrow> js_number) \<Rightarrow> real \<Rightarrow> (nat \<Rightarrow> 'a fetch_result)
     \<Rightarrow> fetch_state \<Rightarrow> (js_string + 'a Response option) \<times> fetch_state"
where
  "fetchWithRetry clock toNumber random net s =
     fetchLoop clock toNumber random net 0 None None s"


subsection \<open>Paginated aggregation\<close>

text \<open>
  \<open>SpotifyTrackObject\<close> as \<open>toRawTrack\<close> reads it: every field the code guards with
  \<open>?.\<close> or \<open>??\<close> is an option. The album carries its name and the URLs of its images.
\<close>

record SpotifyAlbum =
  album_name :: js_string
  album_images :: "js_string list"

record SpotifyTrackObject =
  id_obj :: "js_string option"
  name_obj :: js_string
  uri_obj :: "js_string option"
  artists_obj :: "js_string list option"
  album_obj :: "SpotifyAlbum option"
  external_url_obj :: "js_string option"
  preview_url_obj :: "js_string option"

text \<open>
  \<open>!track?.id\<close> holds for a missing track, a missing identifier and the empty string.
\<close>

definition toRawTrack :: "SpotifyTrackObject option \<Rightarrow> RawTrack option" where
  "toRawTrack track =
     (case track of
        None \<Rightarrow> None
      | Some t \<Rightarrow>
          (case id_obj t of
             None \<Rightarrow> None
           | Some i \<Rightarrow>
               if i = [] then None
               else Some \<lparr> id_track = i,
                           name = name_obj t,
                           uri = uri_obj t,
                           artists = (case artists_obj t of Some names \<Rightarrow> names | None \<Rightarrow> []),
                           albumName = (case album_obj t of Some a \<Rightarrow> album_name a | None \<Rightarrow> []),
                           albumArtUrl = (case album_obj t of
                                            Some a \<Rightarrow> (case album_images a of
                                                         [] \<Rightarrow> None | url # _ \<Rightarrow> Some url)
                                          | None \<Rightarrow> None),
                           externalUrl = external_url_obj t,
                           previewUrl = preview_url_obj t \<rparr>))"



text \<open>
  What the server does along one paginated walk, seen through \<open>fetchWithRetry\<close>: the
  request for a page throws or returns a response. \<open>LastPage\<close> is a request whose
  outcome, if it is an ok response, carries \<open>next: null\<close>; \<open>NextPage items w\<close> is an ok
  response with these items and a \<open>next\<close> link whose request behaves as \<open>w\<close>.
\<close>

datatype 'a walk =
  LastPage "js_string + 'a list Response"
| NextPage "'a list" "'a walk"

definition spotifyFetch :: "js_string + 'a Response \<Rightarrow> js_string + 'a" where
  \<comment> \<open>\<open>fetchWithRetry\<close> followed by \<open>safeJson\<close>\<close>
  "spotifyFetch outcome = (case outcome of Inl message \<Rightarrow> Inl message | Inr response \<Rightarrow> safeJson response)"



text \<open>
  \<open>FetchUserTracksOptions\<close>; an omitted toggle is \<open>None\<close> and defaults to true. The
  progress callback does not enter the result and is left out, as are the page sizes,
  which only shape the request URLs.
\<close>

record FetchUserTracksOptions =
  limit :: real
  includeLikedSongs :: "bool option"
  includeSavedAlbums :: "bool option"
  includeRecentlyPlayed :: "bool option"





subsection \<open>Audio features in batches\<close>




section \<open>Sync route (\<open>POST /api/library/sync\<close>)\<close>

text \<open>
  A field of the request body as parsed JSON. \<open>JUndefined\<close> is an absent field, which
  is also what every field is when the body does not parse and \<open>{}\<close> takes its place.
  \<open>JObject s\<close> is an array or object whose conversion to a primitive is the string
  \<open>s\<close>.
\<close>

datatype json =
  JUndefined | JNull | JBool bool | JNumber real | JString js_string | JObject js_string

record sync_body =
  mode_field :: json
  limit_field :: json

text \<open>\<open>Number(value)\<close>, with the conversion of a string as the parameter \<open>toNumber\<close>.\<close>

fun js_Number :: "(js_string \<Rightarrow> js_number) \<Rightarrow> json \<Rightarrow> js_number" where
  "js_Number toNumber JUndefined = NaN"
| "js_Number toNumber JNull = Num 0"
| "js_Number toNumber (JBool b) = Num (if b then 1 else 0)"
| "js_Number toNumber (JNumber r) = Num r"
| "js_Number toNumber (JString s) = toNumber s"
| "js_Number toNumber (JObject s) = toNumber s"

datatype sync_mode = Quick | Full

definition sync_mode_of :: "sync_body \<Rightarrow> sync_mode" where
  \<comment> \<open>\<open>json.mode === "full" ? "full" : "quick"\<close>\<close>
  "sync_mode_of body = (if mode_field body = JString (utf16 ''full'') then Full else Quick)"

definition defaultLimit :: "sync_mode \<Rightarrow> real" where
  "defaultLimit m = (if m = Full then 180 else 20)"

definition requestedLimit :: "(js_string \<Rightarrow> js_number) \<Rightarrow> sync_body \<Rightarrow> js_number" where
  \<comment> \<open>\<open>Number(json.limit ?? defaultLimit)\<close>\<close>
  "requestedLimit toNumber body =
     (if limit_field body = JUndefined \<or> limit_field body = JNull
      then Num (defaultLimit (sync_mode_of body))
      else js_Number toNumber (limit_field body))"

definition sync_limit :: "(js_string \<Rightarrow> js_number) \<Rightarrow> sync_body \<Rightarrow> real" where
  "sync_limit toNumber body =
     (case requestedLimit toNumber body of
        Num r \<Rightarrow> max 20 (min 1000 r)
      | _ \<Rightarrow> defaultLimit (sync_mode_of body))"

text \<open>
  The options \<open>POST\<close> passes to \<open>fetchUserTracks\<close>, and the two time limits it puts
  around the track phase and the feature phase.
\<close>

definition sync_options :: "(js_string \<Rightarrow> js_number) \<Rightarrow> sync_body \<Rightarrow> FetchUserTracksOptions" where
  "sync_options toNumber body =
     (let m = sync_mode_of body;
          quickMode = (m = Quick)
      in \<lparr> limit = sync_limit toNumber body,
           includeLikedSongs = Some (if quickMode then True else True),
           includeSavedAlbums = Some (m = Full),
           includeRecentlyPlayed = Some (if quickMode then False else True) \<rparr>)"

definition trackTimeoutMs :: "sync_body \<Rightarrow> real" where
  "trackTimeoutMs body = (if sync_mode_of body = Quick then 28000 else 60000)"

definition featureTimeoutMs :: "sync_body \<Rightarrow> real" where
  "featureTimeoutMs body = (if sync_mode_of body = Quick then 35000 else 50000)"


section \<open>Auxiliary definitions and example inputs\<close>




text \<open>
  The pending deadline lies at most \<open>MAX_RATE_LIMIT_DELAY_MS\<close> after the next clock
  read.
\<close>

definition bounded_ahead :: "(nat \<Rightarrow> real) \<Rightarrow> fetch_state \<Rightarrow> bool" where
  "bounded_ahead clock s \<longleftrightarrow> spotifyRateLimitedUntil s \<le> clock (reads s) + MAX_RATE_LIMIT_DELAY_MS"


text \<open>
  The raw tracks among a list of items, in order (\<open>toRawTrack\<close> drops an item without
  identifier); the versions of one identifier among them; and the property of the track
  map that every entry is stored under its own identifier.
\<close>

definition rawTracksOf :: "SpotifyTrackObject option list \<Rightarrow> RawTrack list" where
  "rawTracksOf items = List.map_filter toRawTrack items"

definition versions :: "js_string \<Rightarrow> SpotifyTrackObject option list \<Rightarrow> RawTrack list" where
  "versions tid items = filter (\<lambda>raw. id_track raw = tid) (rawTracksOf items)"

text \<open>
  The items of a source: what the server delivers along the whole walk, page after page.
  A last request that fails delivers nothing.
\<close>

fun walkItems :: "'a walk \<Rightarrow> 'a list" where
  "walkItems (LastPage outcome) =
     (case spotifyFetch outcome of Inr items \<Rightarrow> items | Inl message \<Rightarrow> [])"
| "walkItems (NextPage items w) = items @ walkItems w"


text \<open>Concrete inputs at which the theorems below are instantiated.\<close>

definition exampleTrack :: RawTrack where
  "exampleTrack = \<lparr> id_track = utf16 ''t1'', name = utf16 ''Song'', uri = None,
      artists = [utf16 ''A'', utf16 ''B''], albumName = utf16 ''Album'', albumArtUrl = None,
      externalUrl = None, previewUrl = None \<rparr>"

definition exampleTrackOtherAlbum :: RawTrack where
  "exampleTrackOtherAlbum = exampleTrack \<lparr> uri := Some (utf16 ''spotify:track:t1''), albumName := utf16 ''Single'' \<rparr>"

definition exampleFeatures :: TrackAudioFeatures where
  "exampleFeatures = \<lparr> id_feat = utf16 ''t1'', danceability = 1 / 2, energy = 1 / 2, key = 0,
      loudness = - 5, mode = 1, speechiness = 0, acousticness = 0, instrumentalness = 0,
      liveness = 0, valence = 1 / 2, tempo = 110, time_signature = 4 \<rparr>"

text \<open>The double nearest to \<open>0.1\<close>, and three tracks whose energy it is.\<close>

definition exampleTenth :: real where
  "exampleTenth = 3602879701896397 / 2 ^ 55"

definition exampleConstantLibrary :: "TrackAudioFeatures list" where
  "exampleConstantLibrary =
     [exampleFeatures \<lparr> energy := exampleTenth \<rparr>,
      exampleFeatures \<lparr> id_feat := utf16 ''t2'', energy := exampleTenth \<rparr>,
      exampleFeatures \<lparr> id_feat := utf16 ''t3'', energy := exampleTenth \<rparr>]"





definition exampleNow :: js_string where
  "exampleNow = utf16 ''2024-01-01T00:00:00.000Z''"

definition exampleFeatureMap :: "js_string \<rightharpoonup> TrackAudioFeatures" where
  "exampleFeatureMap = Map.empty(utf16 ''t1'' \<mapsto> exampleFeatures)"

definition exampleQuickBody :: sync_body where
  "exampleQuickBody = \<lparr> mode_field = JString (utf16 ''quick''), limit_field = JNumber 5000 \<rparr>"

definition exampleFullBody :: sync_body where
  "exampleFullBody = \<lparr> mode_field = JString (utf16 ''full''), limit_field = JUndefined \<rparr>"







definition examplePage :: "'a list \<Rightarrow> 'a walk" where
  "examplePage items =
     LastPage (Inr \<lparr> status = 200, retryAfter = None, bodyText = [], bodyJson = items \<rparr>)"



section \<open>Sums, magnitudes and the unit sphere\<close>

lemma foldl_index_sum:
  fixes a b :: "real list"
  shows "foldl (\<lambda>sum index. sum + a ! index * b ! index) s [0..<n] = s + (\<Sum>i\<leftarrow>[0..<n]. a ! i * b ! i)"
  by (induction n arbitrary: s) simp_all

lemma dot_self: "dot v v = (\<Sum>x\<leftarrow>v. x * x)"
proof -
  have "dot v v = (\<Sum>i\<leftarrow>[0..<length v]. v ! i * v ! i)"
    by (simp add: dot_def foldl_index_sum)
  also have "\<dots> = (\<Sum>x\<leftarrow>map (\<lambda>i. v ! i) [0..<length v]. x * x)"
    by (simp add: comp_def)
  also have "map (\<lambda>i. v ! i) [0..<length v] = v" by (rule map_nth)
  finally show ?thesis .
qed

lemma magnitude_tuple3: "magnitude (tuple3_list (x, y, z)) = sqrt (x * x + y * y + z * z)"
  by (simp add: magnitude_def dot_self tuple3_list_def)

lemma unit_from_disc:
  assumes "a * a + b * b \<le> 1"
  shows "magnitude (tuple3_list (a, b, sqrt (max 0 (1 - a * a - b * b)))) = 1"
proof -
  have m: "max 0 (1 - a * a - b * b) = 1 - a * a - b * b" using assms by simp
  have nn: "0 \<le> 1 - a * a - b * b" using assms by simp
  have "sqrt (1 - a * a - b * b) * sqrt (1 - a * a - b * b) = 1 - a * a - b * b"
    using nn by simp
  then have "a * a + b * b + sqrt (1 - a * a - b * b) * sqrt (1 - a * a - b * b) = 1"
    by simp
  then show ?thesis unfolding magnitude_tuple3 m by simp
qed

lemma simplePosition_cases:
  fixes f :: TrackAudioFeatures
  defines "x \<equiv> (valence f * 2 - 1) * (92 / 100)"
  defines "y \<equiv> (energy f * 2 - 1) * (92 / 100)"
  defines "r \<equiv> sqrt (x * x + y * y)"
  defines "x' \<equiv> (if r > 96 / 100 then x * (96 / 100 / r) else x)"
  defines "y' \<equiv> (if r > 96 / 100 then y * (96 / 100 / r) else y)"
  shows "simplePositionFromEnergyValence f = (x', y', sqrt (max 0 (1 - x' * x' - y' * y')))"
    and "x' * x' + y' * y' \<le> 1"
proof -
  show "simplePositionFromEnergyValence f = (x', y', sqrt (max 0 (1 - x' * x' - y' * y')))"
    unfolding simplePositionFromEnergyValence_def Let_def x'_def y'_def r_def x_def y_def
    by (rule refl)
  have r2: "r * r = x * x + y * y" unfolding r_def by simp
  have r0: "0 \<le> r" unfolding r_def by simp
  show "x' * x' + y' * y' \<le> 1"
  proof (cases "r > 96 / 100")
    case True
    then have rpos: "r \<noteq> 0" by auto
    define s where "s = 96 / 100 / r"
    have xs: "x' = x * s" and ys: "y' = y * s"
      using True unfolding x'_def y'_def s_def by simp_all
    have "x' * x' + y' * y' = (x * x + y * y) * (s * s)"
      unfolding xs ys by (simp add: algebra_simps)
    also have "\<dots> = (r * r) * (s * s)" using r2 by simp
    also have "\<dots> = (r * s) * (r * s)" by (simp add: algebra_simps)
    also have "r * s = 96 / 100" using rpos unfolding s_def by simp
    finally show ?thesis by simp
  next
    case False
    then have "r \<le> 96 / 100" by simp
    then have "r * r \<le> (96 / 100) * (96 / 100)" using r0 by (intro mult_mono) auto
    then have "x * x + y * y \<le> 1" using r2 by simp
    then show ?thesis using False unfolding x'_def y'_def by simp
  qed
qed

lemma simplePosition_unit:
  "magnitude (tuple3_list (simplePositionFromEnergyValence f)) = 1"
  unfolding simplePosition_cases(1) by (rule unit_from_disc) (rule simplePosition_cases(2))

section \<open>The sphere payload\<close>

lemma tracks_createSpherePayload:
  "tracks (createSpherePayload now rawTracks featureMap) =
     map (\<lambda>index. let item = mergedFeatures rawTracks featureMap ! index in
        \<lparr> id_track = id_track (fst item), name = name (fst item), uri = uri (fst item),
          artists = artists (fst item), albumName = albumName (fst item),
          albumArtUrl = albumArtUrl (fst item), externalUrl = externalUrl (fst item),
          previewUrl = previewUrl (fst item), features = snd item,
          vector = buildFeatureMatrix (map snd (mergedFeatures rawTracks featureMap)) ! index,
          position = simplePositionFromEnergyValence (snd item) \<rparr>)
       [0..<length rawTracks]"
proof (cases "rawTracks = []")
  case True
  then show ?thesis by (simp add: createSpherePayload_def mergedFeatures_def)
next
  case False
  have len: "length (mergedFeatures rawTracks featureMap) = length rawTracks"
    by (simp add: mergedFeatures_def)
  have ne: "length (mergedFeatures rawTracks featureMap) \<noteq> 0"
    using False by (simp add: len)
  have ne': "mergedFeatures rawTracks featureMap \<noteq> []"
    using ne by auto
  show ?thesis
    using ne'
    by (simp add: createSpherePayload_def Let_def len del: upt_Suc cong: map_cong)
qed

text \<open>
  Claim C1. For a non-empty list of input tracks, \<open>createSpherePayload\<close> emits one
  track per input track, and the position of every emitted track has Euclidean magnitude
  within \<open>1e-6\<close> of 1. Positions come from \<open>simplePositionFromEnergyValence\<close>,
  whose third coordinate is chosen so that the magnitude is exactly 1.
\<close>

theorem createSpherePayload_positions_unit:
  assumes "rawTracks \<noteq> []"
  shows "length (tracks (createSpherePayload now rawTracks featureMap)) = length rawTracks
       \<and> (\<forall>t \<in> set (tracks (createSpherePayload now rawTracks featureMap)).
            \<bar>magnitude (tuple3_list (position t)) - 1\<bar> \<le> 1 / 10 ^ 6)"
  unfolding tracks_createSpherePayload
  by (auto simp: Let_def simplePosition_unit)

theorem createSpherePayload_positions_unit_witness:
  "[exampleTrack] \<noteq> []
   \<and> length (tracks (createSpherePayload (utf16 ''2024-01-01T00:00:00.000Z'') [exampleTrack]
         (Map.empty(utf16 ''t1'' \<mapsto> exampleFeatures)))) = 1
   \<and> \<bar>magnitude (tuple3_list (position (tracks (createSpherePayload
         (utf16 ''2024-01-01T00:00:00.000Z'') [exampleTrack]
         (Map.empty(utf16 ''t1'' \<mapsto> exampleFeatures))) ! 0))) - 1\<bar> \<le> 1 / 10 ^ 6"
proof -
  define P where "P = createSpherePayload (utf16 ''2024-01-01T00:00:00.000Z'') [exampleTrack]
         (Map.empty(utf16 ''t1'' \<mapsto> exampleFeatures))"
  have ne: "[exampleTrack] \<noteq> []" by simp
  note T = createSpherePayload_positions_unit [OF ne, of "utf16 ''2024-01-01T00:00:00.000Z''"
      "Map.empty(utf16 ''t1'' \<mapsto> exampleFeatures)", folded P_def]
  from T have len: "length (tracks P) = 1" by simp
  then have "tracks P ! 0 \<in> set (tracks P)" by simp
  with T have "\<bar>magnitude (tuple3_list (position (tracks P ! 0))) - 1\<bar> \<le> 1 / 10 ^ 6"
    by blast
  with ne len show ?thesis unfolding P_def by blast
qed

text \<open>
  Claim C9. For every index \<open>i\<close> of \<open>n\<close> total points, the Fibonacci-sphere point
  is \<open>(cos \<theta> * sin \<phi>, sin \<theta> * sin \<phi>, cos \<phi>)\<close> with
  \<open>\<phi> = acos (1 - 2 * (i + 0.5) / n)\<close> and \<open>\<theta> = \<pi> * (1 + \<surd>5) * (i + 0.5)\<close>,
  and the argument of \<open>acos\<close> lies in \<open>[-1, 1]\<close>.
\<close>

theorem fibonacciSpherePoint_formula:
  assumes "i < n"
  shows "- 1 \<le> 1 - 2 * (real i + 1 / 2) / real n \<and> 1 - 2 * (real i + 1 / 2) / real n \<le> 1 \<and>
    fibonacciSpherePoint i n =
      (cos (pi * (1 + sqrt 5) * (real i + 1 / 2)) * sin (arccos (1 - 2 * (real i + 1 / 2) / real n)),
       sin (pi * (1 + sqrt 5) * (real i + 1 / 2)) * sin (arccos (1 - 2 * (real i + 1 / 2) / real n)),
       cos (arccos (1 - 2 * (real i + 1 / 2) / real n)))"
proof -
  have n: "max (real n) 1 = real n" using assms by (simp add: max_def)
  have "2 * (real i + 1 / 2) \<le> 2 * real n" using assms by simp
  then have "2 * (real i + 1 / 2) / real n \<le> 2" using assms by (simp add: field_simps)
  moreover have "0 \<le> 2 * (real i + 1 / 2) / real n" by simp
  ultimately show ?thesis
    unfolding fibonacciSpherePoint_def Let_def n by simp
qed

theorem fibonacciSpherePoint_formula_witness:
  "(0::nat) < 1 \<and> fibonacciSpherePoint 0 1 = (cos (pi * (1 + sqrt 5) * (1 / 2)), sin (pi * (1 + sqrt 5) * (1 / 2)), 0)"
  using fibonacciSpherePoint_formula [of 0 1] by (simp add: arccos_0 del: )

text \<open>
  Claim C10. For the empty track list \<open>createSpherePayload\<close> returns a payload with
  track count 0, no tracks, and the four semantic axes energy \<open>(0, 1, 0)\<close>, tempo
  \<open>(1, 0, 0)\<close>, valence \<open>(0, 0, 1)\<close> and acousticness \<open>(-1, 0, 0)\<close>, each of
  magnitude 1.
\<close>

theorem createSpherePayload_empty:
  "createSpherePayload now [] featureMap =
     \<lparr> generatedAt = now, trackCount = 0, tracks = [],
       semanticAxes = \<lparr> energy_axis = (0, 1, 0), tempo_axis = (1, 0, 0),
                         valence_axis = (0, 0, 1), acousticness_axis = (- 1, 0, 0) \<rparr> \<rparr>
   \<and> magnitude (tuple3_list (energy_axis (semanticAxes (createSpherePayload now [] featureMap)))) = 1
   \<and> magnitude (tuple3_list (tempo_axis (semanticAxes (createSpherePayload now [] featureMap)))) = 1
   \<and> magnitude (tuple3_list (valence_axis (semanticAxes (createSpherePayload now [] featureMap)))) = 1
   \<and> magnitude (tuple3_list (acousticness_axis (semanticAxes (createSpherePayload now [] featureMap)))) = 1"
  by (simp add: createSpherePayload_def mergedFeatures_def magnitude_tuple3)

lemma zeroCount_filter:
  "zeroCount raw = length (filter (\<lambda>pos. magnitude pos < 1 / 10 ^ 6) raw)"
proof -
  have "foldl (\<lambda>count pos. if magnitude pos < 1 / 10 ^ 6 then count + 1 else count) c raw
      = c + length (filter (\<lambda>pos. magnitude pos < 1 / 10 ^ 6) raw)" for c :: nat
    by (induction raw arbitrary: c) simp_all
  then show ?thesis by (simp add: zeroCount_def)
qed

lemma payload_positions:
  "map position (tracks (createSpherePayload now rawTracks featureMap))
     = map (\<lambda>item. simplePositionFromEnergyValence (snd item)) (mergedFeatures rawTracks featureMap)"
proof -
  have len: "length (mergedFeatures rawTracks featureMap) = length rawTracks"
    by (simp add: mergedFeatures_def)
  show ?thesis
    unfolding tracks_createSpherePayload
    by (rule nth_equalityI) (simp_all add: len Let_def)
qed

text \<open>
  Claim C2, as the code has it. When more than 30 percent of the raw positions have
  magnitude below \<open>1e-6\<close>, \<open>ensureVisiblePositions\<close> returns one position per track,
  and the position at every index is the Fibonacci-sphere point of that index among all
  tracks. \<open>createSpherePayload\<close> does not call \<open>ensureVisiblePositions\<close>: the position it
  emits for a track is \<open>simplePositionFromEnergyValence\<close> of the track's features.
\<close>

theorem ensureVisiblePositions_mostly_collapsed:
  assumes "real (length (filter (\<lambda>pos. magnitude pos < 1 / 10 ^ 6) rawPositions))
             > (30 / 100) * real (length rawPositions)"
  shows "length (ensureVisiblePositions rawPositions) = length rawPositions
       \<and> (\<forall>index < length rawPositions.
             ensureVisiblePositions rawPositions ! index
               = fibonacciSpherePoint index (length rawPositions))
       \<and> map position (tracks (createSpherePayload now rawTracks featureMap))
           = map (\<lambda>item. simplePositionFromEnergyValence (snd item))
               (mergedFeatures rawTracks featureMap)"
proof -
  have "mostlyCollapsed rawPositions"
    using assms by (simp add: mostlyCollapsed_def zeroCount_filter)
  then show ?thesis
    by (simp add: ensureVisiblePositions_def fibonacciLayout_def payload_positions)
qed

theorem ensureVisiblePositions_mostly_collapsed_witness:
  "real (length (filter (\<lambda>pos. magnitude pos < 1 / 10 ^ 6) [[0, 0, 0], [3, 4, 0], [0, 0, 0]]))
      > (30 / 100) * real (length [[0, 0, 0], [3, 4, 0], [0::real, 0, 0]])
   \<and> ensureVisiblePositions [[0, 0, 0], [3, 4, 0], [0, 0, 0]] ! 1 = fibonacciSpherePoint 1 3"
proof -
  have h: "real (length (filter (\<lambda>pos. magnitude pos < 1 / 10 ^ 6) [[0, 0, 0], [3, 4, 0], [0, 0, 0]]))
      > (30 / 100) * real (length [[0, 0, 0], [3, 4, 0], [0::real, 0, 0]])"
    by (simp add: magnitude_def dot_self)
  have "1 < length [[0, 0, 0], [3, 4, 0], [0::real, 0, 0]]" by simp
  with ensureVisiblePositions_mostly_collapsed [OF h]
  have "ensureVisiblePositions [[0, 0, 0], [3, 4, 0], [0, 0, 0]] ! 1
          = fibonacciSpherePoint 1 (length [[0, 0, 0], [3, 4, 0], [0::real, 0, 0]])"
    by blast
  with h show ?thesis by (simp add: numeral_3_eq_3)
qed

lemma example_payload_position:
  "map position (tracks (createSpherePayload exampleNow [exampleTrack] exampleFeatureMap)) = [(0, 0, 1)]"
  by (simp add: payload_positions mergedFeatures_def exampleTrack_def exampleFeatures_def
        exampleFeatureMap_def utf16_def simplePositionFromEnergyValence_def Let_def)

text \<open>
  The payload of a library of one track, whose only raw position \<open>[0, 0, 0]\<close> is
  collapsed: the layout policy would give the Fibonacci-sphere point, whose third
  coordinate is 0, and the payload holds \<open>(0, 0, 1)\<close>.
\<close>

theorem createSpherePayload_not_fibonacci:
  "mostlyCollapsed [[0, 0, 0]]
   \<and> ensureVisiblePositions [[0, 0, 0]] = [fibonacciSpherePoint 0 1]
   \<and> length (tracks (createSpherePayload exampleNow [exampleTrack] exampleFeatureMap)) = length [[0::real, 0, 0]]
   \<and> map position (tracks (createSpherePayload exampleNow [exampleTrack] exampleFeatureMap)) = [(0, 0, 1)]
   \<and> fibonacciSpherePoint 0 1 \<noteq> (0, 0, 1)"
proof -
  have mc: "mostlyCollapsed [[0, 0, 0]]"
    by (simp add: mostlyCollapsed_def zeroCount_filter magnitude_def dot_self)
  have ev: "ensureVisiblePositions [[0, 0, 0]] = [fibonacciSpherePoint 0 1]"
    using mc by (simp add: ensureVisiblePositions_def fibonacciLayout_def)
  have len: "length (tracks (createSpherePayload exampleNow [exampleTrack] exampleFeatureMap)) = length [[0::real, 0, 0]]"
    by (simp add: tracks_createSpherePayload)
  have ne: "fibonacciSpherePoint 0 1 \<noteq> (0, 0, 1)"
    by (simp add: fibonacciSpherePoint_def Let_def arccos_0)
  from mc ev len example_payload_position ne show ?thesis by blast
qed

text \<open>
  The hash on known values: the offset basis for the empty string, and the 32-bit FNV-1a
  hash of the one-letter string \<open>a\<close>.
\<close>

lemma hashString_empty: "hashString [] = 2166136261"
  by (simp add: hashString_def)

lemma hashString_example: "hashString (utf16 ''a'') = 3826002220"
  by (simp add: hashString_def hashStep_def utf16_def)

lemma join_example: "join (utf16 '','') [utf16 ''A'', utf16 ''B''] = utf16 ''A,B''"
  by (simp add: utf16_def)

text \<open>
  Claim C6. The fallback feature synthesizer depends on the identifier, the name and the
  artist list of the track only: two tracks that agree on these three get equal features,
  whatever their other fields are.
\<close>

theorem fallbackFeaturesFromTrack_deterministic:
  assumes "id_track t = id_track t'" and "name t = name t'" and "artists t = artists t'"
  shows "fallbackFeaturesFromTrack t = fallbackFeaturesFromTrack t'"
  using assms by (simp add: fallbackFeaturesFromTrack_def)

theorem fallbackFeaturesFromTrack_deterministic_witness:
  "id_track exampleTrack = id_track exampleTrackOtherAlbum
   \<and> name exampleTrack = name exampleTrackOtherAlbum
   \<and> artists exampleTrack = artists exampleTrackOtherAlbum
   \<and> exampleTrack \<noteq> exampleTrackOtherAlbum
   \<and> fallbackFeaturesFromTrack exampleTrack = fallbackFeaturesFromTrack exampleTrackOtherAlbum"
  using fallbackFeaturesFromTrack_deterministic [of exampleTrack exampleTrackOtherAlbum]
  by (simp add: exampleTrack_def exampleTrackOtherAlbum_def utf16_def)

section \<open>Properties of the rounding\<close>

text \<open>
  \<open>rne\<close> is within one half of its argument and monotone; \<open>toDouble\<close> has relative
  error at most \<open>2\<^sup>-\<^sup>5\<^sup>3\<close> and is computed, for an argument whose scaled
  magnitude lies in \<open>[2\<^sup>5\<^sup>2, 2\<^sup>5\<^sup>3)\<close>, by rounding the scaled argument.
\<close>

lemma rne_error: "\<bar>of_int (rne m) - m\<bar> \<le> 1 / 2"
  unfolding rne_def Let_def by (auto simp: abs_if) linarith+

lemma rne_of_int [simp]: "rne (of_int n) = n"
  by (simp add: rne_def)

lemma floor_le_rne: "\<lfloor>m\<rfloor> \<le> rne m"
  by (simp add: rne_def Let_def)

lemma rne_mono_lower:
  assumes "of_int n \<le> m"
  shows "n \<le> rne m"
proof -
  have "n \<le> \<lfloor>m\<rfloor>" using assms by (simp add: le_floor_iff)
  with floor_le_rne [of m] show ?thesis by linarith
qed

lemma rne_mono_upper: "m \<le> of_int n \<Longrightarrow> rne m \<le> n"
proof -
  assume a: "m \<le> of_int n"
  have f: "\<lfloor>m\<rfloor> \<le> n" using floor_mono [OF a] by simp
  show ?thesis
  proof (cases "m = of_int n")
    case True
    then show ?thesis by simp
  next
    case False
    with a have "m < of_int n" by simp
    then have "\<lfloor>m\<rfloor> < n" by (simp add: floor_less_iff)
    then have "\<lfloor>m\<rfloor> + 1 \<le> n" by simp
    then show ?thesis using f unfolding rne_def Let_def by auto
  qed
qed

lemma exponent_bounds:
  assumes "x \<noteq> 0"
  defines "e \<equiv> \<lfloor>log 2 \<bar>x\<bar>\<rfloor> - 52"
  shows "2 ^ 52 \<le> \<bar>x\<bar> / 2 powi e" and "\<bar>x\<bar> / 2 powi e < 2 ^ 53"
proof -
  have pos: "0 < \<bar>x\<bar>" using assms by simp
  have "\<lfloor>log 2 \<bar>x\<bar>\<rfloor> = e + 52" by (simp add: e_def)
  then have b: "2 powr real_of_int (e + 52) \<le> \<bar>x\<bar>" "\<bar>x\<bar> < 2 powr real_of_int (e + 52 + 1)"
    using floor_log_eq_powr_iff [of "\<bar>x\<bar>" 2 "e + 52"] pos by simp_all
  have p: "2 powr real_of_int k = (2::real) powi k" for k
    by (simp add: powr_real_of_int')
  have s1: "(2::real) powi (e + 52) = 2 powi e * 2 ^ 52"
    by (simp add: power_int_add)
  have s2: "(2::real) powi (e + 52 + 1) = 2 powi e * 2 ^ 53"
    by (simp add: power_int_add)
  have ep: "0 < (2::real) powi e" by simp
  show "2 ^ 52 \<le> \<bar>x\<bar> / 2 powi e"
    using b(1) ep unfolding p s1 by (simp add: field_simps)
  show "\<bar>x\<bar> / 2 powi e < 2 ^ 53"
    using b(2) ep unfolding p s2 by (simp add: field_simps)
qed

lemma toDouble_eval:
  assumes "2 ^ 52 \<le> \<bar>x\<bar> * 2 powi j" and "\<bar>x\<bar> * 2 powi j < 2 ^ 53"
  shows "toDouble x = of_int (rne (x * 2 powi j)) * 2 powi (- j)"
proof -
  have jp: "0 < (2::real) powi j" by simp
  have x0: "x \<noteq> 0" using assms(1) by auto
  have pos: "0 < \<bar>x\<bar>" using x0 by simp
  have p: "2 powr real_of_int k = (2::real) powi k" for k
    by (simp add: powr_real_of_int')
  have m: "(2::real) powi (52 - j) * 2 powi j = 2 ^ 52" "(2::real) powi (52 - j + 1) * 2 powi j = 2 ^ 53"
    by (simp_all add: power_int_add [symmetric])
  have "2 powi (52 - j) \<le> \<bar>x\<bar>"
  proof -
    have "2 powi (52 - j) * 2 powi j \<le> \<bar>x\<bar> * 2 powi j" using assms(1) m(1) by simp
    then show ?thesis using jp by simp
  qed
  moreover have "\<bar>x\<bar> < 2 powi (52 - j + 1)"
  proof -
    have "\<bar>x\<bar> * 2 powi j < 2 powi (52 - j + 1) * 2 powi j" using assms(2) m(2) by simp
    then show ?thesis using jp by simp
  qed
  ultimately have "2 powr real_of_int (52 - j) \<le> \<bar>x\<bar>
      \<and> \<bar>x\<bar> < 2 powr (real_of_int (52 - j) + 1)"
    by (metis p of_int_add of_int_1)
  then have "\<lfloor>log 2 \<bar>x\<bar>\<rfloor> = 52 - j"
    using floor_log_eq_powr_iff [of "\<bar>x\<bar>" 2 "52 - j", THEN iffD2] pos by simp
  then have e: "\<lfloor>log 2 \<bar>x\<bar>\<rfloor> - 52 = - j" by simp
  have "x / 2 powi (- j) = x * 2 powi j" by (simp add: power_int_minus field_simps)
  then show ?thesis using x0 by (simp add: toDouble_def e Let_def)
qed

lemma toDouble_error: "\<bar>toDouble x - x\<bar> \<le> \<bar>x\<bar> / 2 ^ 53"
proof (cases "x = 0")
  case True
  then show ?thesis by (simp add: toDouble_def)
next
  case False
  define e where "e = \<lfloor>log 2 \<bar>x\<bar>\<rfloor> - 52"
  define m where "m = x / 2 powi e"
  have ep: "0 < (2::real) powi e" by simp
  have td: "toDouble x = of_int (rne m) * 2 powi e"
    using False by (simp add: toDouble_def e_def m_def Let_def)
  have xm: "x = m * 2 powi e" by (simp add: m_def)
  have "toDouble x - x = of_int (rne m) * 2 powi e - m * 2 powi e"
    unfolding td using xm by simp
  then have "toDouble x - x = (of_int (rne m) - m) * 2 powi e"
    by (simp add: algebra_simps)
  then have "\<bar>toDouble x - x\<bar> = \<bar>of_int (rne m) - m\<bar> * 2 powi e"
    by (simp add: abs_mult)
  also have "\<dots> \<le> (1 / 2) * 2 powi e"
    using rne_error [of m] ep by (intro mult_right_mono) simp_all
  also have "\<dots> \<le> \<bar>x\<bar> / 2 ^ 53"
  proof -
    have "2 ^ 52 \<le> \<bar>x\<bar> / 2 powi e"
      using exponent_bounds(1) [OF False] by (simp add: e_def)
    then have "2 ^ 52 * 2 powi e \<le> \<bar>x\<bar>" using ep by (simp add: field_simps)
    then show ?thesis by (simp add: field_simps)
  qed
  finally show ?thesis .
qed

lemma toDouble_pos: "0 < x \<Longrightarrow> 0 < toDouble x"
  using toDouble_error [of x] by (simp add: abs_if field_simps split: if_splits) 

lemma toDouble_neg: "x < 0 \<Longrightarrow> toDouble x < 0"
  using toDouble_error [of x] by (simp add: abs_if field_simps split: if_splits)


lemma toDouble_eval_nat:
  assumes "2 ^ 52 \<le> \<bar>x\<bar> * 2 ^ k" and "\<bar>x\<bar> * 2 ^ k < 2 ^ 53"
  shows "toDouble x = of_int (rne (x * 2 ^ k)) / 2 ^ k"
  using toDouble_eval [of x "int k"] assms
  by (simp add: power_int_minus field_simps)

lemma toDouble_zero [simp]: "toDouble 0 = 0"
  by (simp add: toDouble_def)

lemmas toDouble_at =
  toDouble_eval_nat [where k = 52] toDouble_eval_nat [where k = 53]
  toDouble_eval_nat [where k = 54] toDouble_eval_nat [where k = 55]
  toDouble_eval_nat [where k = 56] toDouble_eval_nat [where k = 57]
  toDouble_eval_nat [where k = 58] toDouble_eval_nat [where k = 60]
  toDouble_eval_nat [where k = 108] toDouble_eval_nat [where k = 163]
  toDouble_eval_nat [where k = 164]

section \<open>Percentiles, clamping and standardization\<close>

lemma clamp_cases:
  assumes "lo \<le> hi"
  shows "clamp v lo hi = (if v < lo then lo else if hi < v then hi else v)"
  using assms by (simp add: clamp_def max_def min_def)

lemma buildFeatureMatrix_entry:
  assumes "row < length fs" "col < length FEATURE_KEYS"
  shows "buildFeatureMatrix fs ! row ! col = standardizeColumn (columnValues (FEATURE_KEYS ! col) fs) ! row"
  using assms by (simp add: buildFeatureMatrix_def Let_def)

lemma length_standardizeColumn [simp]: "length (standardizeColumn values) = length values"
  by (simp add: standardizeColumn_def columnClamped_def)

text \<open>The two decimal literals of the column computation, as doubles.\<close>

lemma p02: "toDouble (2 / 100) = 5764607523034235 / 2 ^ 58"
  by (simp add: toDouble_at rne_def Let_def)

lemma p98: "toDouble (98 / 100) = 8827055269646172 / 2 ^ 53"
  by (simp add: toDouble_at rne_def Let_def)

text \<open>
  The indices \<open>lower\<close> and \<open>upper\<close> that \<open>percentile\<close> reads are within the array,
  for both percentiles and an array of any positive length.
\<close>

lemma toDouble_nonneg: "0 \<le> x \<Longrightarrow> 0 \<le> toDouble x"
  using toDouble_pos [of x] by (cases "x = 0") simp_all

lemma index_range:
  assumes "0 \<le> t" "t \<le> real (length s) - 1"
  shows "nat \<lfloor>t\<rfloor> \<le> nat \<lceil>t\<rceil>" "nat \<lceil>t\<rceil> < length s"
proof -
  show "nat \<lfloor>t\<rfloor> \<le> nat \<lceil>t\<rceil>" by (rule nat_mono) (rule floor_le_ceiling)
  have "t \<le> of_int (int (length s) - 1)" using assms(2) by simp
  then have "\<lceil>t\<rceil> \<le> int (length s) - 1" by (rule ceiling_le)
  moreover have "0 < length s" using assms by (cases s) auto
  ultimately show "nat \<lceil>t\<rceil> < length s" by linarith
qed

lemma percentile_indices:
  assumes "s \<noteq> []" "0 \<le> p" "p \<le> 99 / 100"
  shows "nat \<lfloor>toDouble ((real (length s) - 1) * p)\<rfloor> < length s
       \<and> nat \<lceil>toDouble ((real (length s) - 1) * p)\<rceil> < length s"
proof -
  define x where "x = (real (length s) - 1) * p"
  have n: "0 \<le> real (length s) - 1" using assms(1) by (cases s) auto
  have x0: "0 \<le> x" unfolding x_def using n assms(2) by simp
  have xn: "x \<le> (real (length s) - 1) * (99 / 100)"
    unfolding x_def using n assms(3) by (rule mult_left_mono [rotated])
  have "toDouble x \<le> x + x / 2 ^ 53" using toDouble_error [of x] x0 by (simp add: abs_if split: if_splits)
  also have "\<dots> = x * (1 + 1 / 2 ^ 53)" by (simp add: algebra_simps)
  also have "\<dots> \<le> (real (length s) - 1) * (99 / 100) * (1 + 1 / 2 ^ 53)"
    using xn by (rule mult_right_mono) simp
  also have "\<dots> = (real (length s) - 1) * (99 / 100 * (1 + 1 / 2 ^ 53))" by simp
  also have "\<dots> \<le> (real (length s) - 1) * 1"
    using n by (rule mult_left_mono [rotated]) simp
  finally have b: "toDouble x \<le> real (length s) - 1" by simp
  have a: "0 \<le> toDouble x" using x0 by (rule toDouble_nonneg)
  from index_range [OF a b] show ?thesis unfolding x_def by linarith
qed

lemma percentile_indices_low:
  "s \<noteq> [] \<Longrightarrow> nat \<lfloor>toDouble ((real (length s) - 1) * toDouble (2 / 100))\<rfloor> < length s
       \<and> nat \<lceil>toDouble ((real (length s) - 1) * toDouble (2 / 100))\<rceil> < length s"
  unfolding p02 by (rule percentile_indices) simp_all

lemma percentile_indices_high:
  "s \<noteq> [] \<Longrightarrow> nat \<lfloor>toDouble ((real (length s) - 1) * toDouble (98 / 100))\<rfloor> < length s
       \<and> nat \<lceil>toDouble ((real (length s) - 1) * toDouble (98 / 100))\<rceil> < length s"
  unfolding p98 by (rule percentile_indices) simp_all

subsection \<open>A column of three equal values\<close>

text \<open>
  The column \<open>0.1, 0.1, 0.1\<close>, evaluated operation by operation. Both percentiles are
  \<open>0.1\<close> and nothing is clamped. The running sum is \<open>0.1\<close>, then \<open>0.2\<close>, then
  \<open>0.30000000000000004\<close>, and a third of that rounds to the double above \<open>0.1\<close>: the
  mean is \<open>0.1 + 2\<^sup>-\<^sup>5\<^sup>6\<close>. Every deviation is \<open>- 2\<^sup>-\<^sup>5\<^sup>6\<close>, the variance is
  \<open>3 / 2\<^sup>1\<^sup>1\<^sup>3\<close> and its square root is about \<open>1.7e-17\<close>, which is not zero, so
  \<open>|| 1\<close> keeps it and each entry is about \<open>-0.8165\<close>.
\<close>

lemma exampleTenth_double: "toDouble (1 / 10) = exampleTenth"
  by (simp add: exampleTenth_def toDouble_at rne_def)

lemma constant_sorted:
  "sort [exampleTenth, exampleTenth, exampleTenth] = [exampleTenth, exampleTenth, exampleTenth]"
  by simp

lemma constant_low: "columnLow [exampleTenth, exampleTenth, exampleTenth] = exampleTenth"
proof -
  have idx: "toDouble ((real (length [exampleTenth, exampleTenth, exampleTenth]) - 1)
                * (5764607523034235 / 2 ^ 58)) = 5764607523034235 / 2 ^ 57"
    by (simp add: toDouble_at rne_def)
  have fc: "\<lfloor>5764607523034235 / 2 ^ 57 :: real\<rfloor> = 0" "\<lceil>5764607523034235 / 2 ^ 57 :: real\<rceil> = 1"
    by simp_all
  have w: "toDouble (5764607523034235 / 2 ^ 57 - of_int 0) = 5764607523034235 / 2 ^ 57"
    by (simp add: toDouble_at rne_def)
  show ?thesis
    unfolding columnLow_def constant_sorted p02 percentile_def Let_def idx fc
    apply (simp only: w)
    apply (simp add: toDouble_at rne_def exampleTenth_def)
    done
qed

lemma constant_high: "columnHigh [exampleTenth, exampleTenth, exampleTenth] = exampleTenth"
proof -
  have idx: "toDouble ((real (length [exampleTenth, exampleTenth, exampleTenth]) - 1)
                * (8827055269646172 / 2 ^ 53)) = 8827055269646172 / 2 ^ 52"
    by (simp add: toDouble_at rne_def)
  have fc: "\<lfloor>8827055269646172 / 2 ^ 52 :: real\<rfloor> = 1" "\<lceil>8827055269646172 / 2 ^ 52 :: real\<rceil> = 2"
    by simp_all
  have w: "toDouble (8827055269646172 / 2 ^ 52 - of_int 1) = 8646911284551352 / 2 ^ 53"
    by (simp add: toDouble_at rne_def)
  show ?thesis
    unfolding columnHigh_def constant_sorted p98 percentile_def Let_def idx fc
    apply (simp only: w)
    apply (simp add: toDouble_at rne_def exampleTenth_def)
    done
qed

lemma constant_clamped:
  "columnClamped [exampleTenth, exampleTenth, exampleTenth]
     = [exampleTenth, exampleTenth, exampleTenth]"
  by (simp add: columnClamped_def constant_low constant_high clamp_def)

lemma constant_mean:
  "columnMean [exampleTenth, exampleTenth, exampleTenth] = 7205759403792795 / 2 ^ 56"
proof -
  have s: "foldl (\<lambda>sum v. toDouble (sum + v)) 0 [exampleTenth, exampleTenth, exampleTenth]
             = 5404319552844596 / 2 ^ 54"
    by (simp add: exampleTenth_def toDouble_at rne_def)
  have m: "toDouble (5404319552844596 / 2 ^ 54
             / max (real (length [exampleTenth, exampleTenth, exampleTenth])) 1)
             = 7205759403792795 / 2 ^ 56"
    by (simp add: toDouble_at rne_def)
  show ?thesis unfolding columnMean_def constant_clamped Let_def s m ..
qed

lemma constant_variance:
  "columnVariance [exampleTenth, exampleTenth, exampleTenth] = 3 / 2 ^ 113"
proof -
  have d: "toDouble (exampleTenth - 7205759403792795 / 2 ^ 56) = - 1 / 2 ^ 56"
    by (simp add: exampleTenth_def toDouble_at rne_def)
  have q: "toDouble (- 1 / 2 ^ 56 * (- 1 / 2 ^ 56)) = 1 / 2 ^ 112"
    by (simp add: toDouble_at rne_def)
  have s: "foldl (\<lambda>sum v. toDouble (sum + toDouble (toDouble (v - 7205759403792795 / 2 ^ 56)
                    * toDouble (v - 7205759403792795 / 2 ^ 56))))
             0 [exampleTenth, exampleTenth, exampleTenth] = 3 / 2 ^ 112"
    unfolding foldl.simps d q by (simp add: toDouble_at rne_def)
  have v: "toDouble (3 / 2 ^ 112
             / max (real (length [exampleTenth, exampleTenth, exampleTenth]) - 1) 1) = 3 / 2 ^ 113"
    by (simp add: toDouble_at rne_def)
  show ?thesis unfolding columnVariance_def constant_clamped constant_mean Let_def s v ..
qed

lemma sqrt_six_bounds: "2449 / 1000 < sqrt 6" "sqrt 6 < 2450 / 1000"
proof -
  show "2449 / 1000 < sqrt 6" by (rule real_less_rsqrt) (simp add: power2_eq_square)
  show "sqrt 6 < 2450 / 1000" by (rule real_less_lsqrt) (simp_all add: power2_eq_square)
qed

lemma sqrt_constant_variance: "sqrt (3 / 2 ^ 113) = sqrt 6 / 2 ^ 57"
proof -
  have "(3 :: real) / 2 ^ 113 = 6 / (2 ^ 57) ^ 2" by simp
  then have "sqrt (3 / 2 ^ 113) = sqrt (6 / (2 ^ 57) ^ 2)" by (rule arg_cong)
  also have "\<dots> = sqrt 6 / 2 ^ 57" unfolding real_sqrt_divide by simp
  finally show ?thesis .
qed

lemma constant_sd_bounds:
  "2448 / 1000 / 2 ^ 57 < columnSd [exampleTenth, exampleTenth, exampleTenth]"
  "columnSd [exampleTenth, exampleTenth, exampleTenth] < 2451 / 1000 / 2 ^ 57"
proof -
  define x :: real where "x = sqrt 6 / 2 ^ 57"
  have lo: "2449 / 1000 / 2 ^ 57 < x" and hi: "x < 2450 / 1000 / 2 ^ 57"
    unfolding x_def using sqrt_six_bounds by (simp_all add: divide_strict_right_mono)
  have x0: "0 < x" using lo by (simp add: less_trans [rotated])
  have e: "\<bar>toDouble x - x\<bar> \<le> x / 2 ^ 53" using toDouble_error [of x] x0 by simp
  have e2: "x / 2 ^ 53 < 1 / 1000 / 2 ^ 57" using hi by simp
  have l: "2448 / 1000 / 2 ^ 57 < toDouble x" using e e2 lo by (simp add: abs_if split: if_splits)
  have h: "toDouble x < 2451 / 1000 / 2 ^ 57" using e e2 hi by (simp add: abs_if split: if_splits)
  have ne: "toDouble x \<noteq> 0" using l by simp
  have sd: "columnSd [exampleTenth, exampleTenth, exampleTenth] = toDouble x"
    unfolding columnSd_def constant_variance sqrt_constant_variance x_def [symmetric]
    using ne by simp
  show "2448 / 1000 / 2 ^ 57 < columnSd [exampleTenth, exampleTenth, exampleTenth]"
    unfolding sd by (rule l)
  show "columnSd [exampleTenth, exampleTenth, exampleTenth] < 2451 / 1000 / 2 ^ 57"
    unfolding sd by (rule h)
qed

lemma constant_deviation:
  "toDouble (exampleTenth - columnMean [exampleTenth, exampleTenth, exampleTenth]) = - 1 / 2 ^ 56"
  unfolding constant_mean by (simp add: exampleTenth_def toDouble_at rne_def)

lemma constant_score_bounds:
  "- 82 / 100 < toDouble (- 1 / 2 ^ 56 / columnSd [exampleTenth, exampleTenth, exampleTenth])"
  "toDouble (- 1 / 2 ^ 56 / columnSd [exampleTenth, exampleTenth, exampleTenth]) < - 81 / 100"
proof -
  define sd where "sd = columnSd [exampleTenth, exampleTenth, exampleTenth]"
  define q :: real where "q = - 1 / 2 ^ 56 / sd"
  have l: "2448 / 1000 / 2 ^ 57 < sd" and h: "sd < 2451 / 1000 / 2 ^ 57"
    unfolding sd_def by (rule constant_sd_bounds)+
  have sd0: "0 < sd" using l by (simp add: less_trans [rotated])
  have ql: "- 817 / 1000 < q"
  proof -
    have "1 / 2 ^ 56 < 817 / 1000 * sd" using l by simp
    then have "1 / 2 ^ 56 / sd < 817 / 1000" using sd0 by (simp add: pos_divide_less_eq)
    then show ?thesis unfolding q_def by simp
  qed
  have qh: "q < - 815 / 1000"
  proof -
    have "815 / 1000 * sd < 1 / 2 ^ 56" using h by simp
    then have "815 / 1000 < 1 / 2 ^ 56 / sd" using sd0 by (simp add: pos_less_divide_eq)
    then show ?thesis unfolding q_def by simp
  qed
  have e: "\<bar>toDouble q - q\<bar> \<le> \<bar>q\<bar> / 2 ^ 53" by (rule toDouble_error)
  have aq: "\<bar>q\<bar> < 1" using ql qh by simp
  have e2: "\<bar>q\<bar> / 2 ^ 53 < 1 / 1000" using aq by simp
  show "- 82 / 100 < toDouble (- 1 / 2 ^ 56 / columnSd [exampleTenth, exampleTenth, exampleTenth])"
    unfolding sd_def [symmetric] q_def [symmetric] using e e2 ql by (simp add: abs_if split: if_splits)
  show "toDouble (- 1 / 2 ^ 56 / columnSd [exampleTenth, exampleTenth, exampleTenth]) < - 81 / 100"
    unfolding sd_def [symmetric] q_def [symmetric] using e e2 qh by (simp add: abs_if split: if_splits)
qed

lemma constant_standardized:
  "standardizeColumn [exampleTenth, exampleTenth, exampleTenth]
     = replicate 3 (toDouble (- 1 / 2 ^ 56 / columnSd [exampleTenth, exampleTenth, exampleTenth]))"
  unfolding standardizeColumn_def constant_clamped
  by (simp add: constant_deviation numeral_3_eq_3)

lemma constant_column:
  "columnValues Energy exampleConstantLibrary = [exampleTenth, exampleTenth, exampleTenth]"
  by (simp add: columnValues_def featureValue_def exampleConstantLibrary_def)

text \<open>
  Claim C7. The claim does not hold of the code. For the library of three tracks whose
  energy is the double \<open>0.1\<close>, the clamped values of the energy column are all equal to
  \<open>0.1\<close>, yet the mean that \<open>buildFeatureMatrix\<close> computes is the next double above
  \<open>0.1\<close>, the variance it computes is \<open>3 / 2\<^sup>1\<^sup>1\<^sup>3\<close> and not zero, and the
  energy entry of every row of the matrix is the same number between \<open>-0.82\<close> and
  \<open>-0.81\<close>, not zero.
\<close>

theorem buildFeatureMatrix_constant_column_not_zero:
  "toDouble (1 / 10) = exampleTenth
   \<and> map energy exampleConstantLibrary = [exampleTenth, exampleTenth, exampleTenth]
   \<and> columnClamped (columnValues Energy exampleConstantLibrary)
       = [exampleTenth, exampleTenth, exampleTenth]
   \<and> columnMean (columnValues Energy exampleConstantLibrary) = exampleTenth + 1 / 2 ^ 56
   \<and> columnVariance (columnValues Energy exampleConstantLibrary) = 3 / 2 ^ 113
   \<and> length (buildFeatureMatrix exampleConstantLibrary) = 3
   \<and> buildFeatureMatrix exampleConstantLibrary ! 1 ! 0 = buildFeatureMatrix exampleConstantLibrary ! 0 ! 0
   \<and> buildFeatureMatrix exampleConstantLibrary ! 2 ! 0 = buildFeatureMatrix exampleConstantLibrary ! 0 ! 0
   \<and> - 82 / 100 < buildFeatureMatrix exampleConstantLibrary ! 0 ! 0
   \<and> buildFeatureMatrix exampleConstantLibrary ! 0 ! 0 < - 81 / 100
   \<and> buildFeatureMatrix exampleConstantLibrary ! 0 ! 0 \<noteq> 0"
proof -
  have len: "length exampleConstantLibrary = 3" by (simp add: exampleConstantLibrary_def)
  have keys: "0 < length FEATURE_KEYS" "FEATURE_KEYS ! 0 = Energy" by (simp_all add: FEATURE_KEYS_def)
  have entry: "buildFeatureMatrix exampleConstantLibrary ! r ! 0
      = toDouble (- 1 / 2 ^ 56 / columnSd [exampleTenth, exampleTenth, exampleTenth])"
    if "r < 3" for r
  proof -
    have "buildFeatureMatrix exampleConstantLibrary ! r ! 0
        = standardizeColumn (columnValues (FEATURE_KEYS ! 0) exampleConstantLibrary) ! r"
      using that len keys(1) by (intro buildFeatureMatrix_entry) simp_all
    also have "\<dots> = replicate 3 (toDouble (- 1 / 2 ^ 56 / columnSd [exampleTenth, exampleTenth, exampleTenth])) ! r"
      unfolding keys(2) constant_column constant_standardized ..
    also have "\<dots> = toDouble (- 1 / 2 ^ 56 / columnSd [exampleTenth, exampleTenth, exampleTenth])"
      using that by simp
    finally show ?thesis .
  qed
  have c1: "toDouble (1 / 10) = exampleTenth" by (rule exampleTenth_double)
  have c2: "map energy exampleConstantLibrary = [exampleTenth, exampleTenth, exampleTenth]"
    by (simp add: exampleConstantLibrary_def)
  have c3: "columnClamped (columnValues Energy exampleConstantLibrary)
       = [exampleTenth, exampleTenth, exampleTenth]"
    unfolding constant_column by (rule constant_clamped)
  have c4: "columnMean (columnValues Energy exampleConstantLibrary) = exampleTenth + 1 / 2 ^ 56"
    unfolding constant_column constant_mean by (simp add: exampleTenth_def)
  have c5: "columnVariance (columnValues Energy exampleConstantLibrary) = 3 / 2 ^ 113"
    unfolding constant_column by (rule constant_variance)
  have c6: "length (buildFeatureMatrix exampleConstantLibrary) = 3"
    by (simp add: buildFeatureMatrix_def Let_def len)
  have c7: "buildFeatureMatrix exampleConstantLibrary ! 1 ! 0 = buildFeatureMatrix exampleConstantLibrary ! 0 ! 0"
    by (simp add: entry)
  have c8: "buildFeatureMatrix exampleConstantLibrary ! 2 ! 0 = buildFeatureMatrix exampleConstantLibrary ! 0 ! 0"
    by (simp add: entry)
  have e0: "buildFeatureMatrix exampleConstantLibrary ! 0 ! 0
      = toDouble (- 1 / 2 ^ 56 / columnSd [exampleTenth, exampleTenth, exampleTenth])"
    by (rule entry) simp
  have c9: "- 82 / 100 < buildFeatureMatrix exampleConstantLibrary ! 0 ! 0"
    unfolding e0 by (rule constant_score_bounds)
  have c10: "buildFeatureMatrix exampleConstantLibrary ! 0 ! 0 < - 81 / 100"
    unfolding e0 by (rule constant_score_bounds)
  have c11: "buildFeatureMatrix exampleConstantLibrary ! 0 ! 0 \<noteq> 0"
    using c10 by simp
  show ?thesis
    by (intro conjI) (rule c1 c2 c3 c4 c5 c6 c7 c8 c9 c10 c11)+
qed

section \<open>The shared rate-limit cool-down\<close>

lemma normalize_cases:
  "normalizeRateLimitRemainingMs clock s =
     (if spotifyRateLimitedUntil s - clock (reads s) \<le> 0
      then (0, s\<lparr>reads := reads s + 1, spotifyRateLimitedUntil := 0\<rparr>)
      else (min MAX_RATE_LIMIT_DELAY_MS (spotifyRateLimitedUntil s - clock (reads s)),
            s\<lparr>reads := reads s + 2,
              spotifyRateLimitedUntil := clock (reads s + 1) + min MAX_RATE_LIMIT_DELAY_MS (spotifyRateLimitedUntil s - clock (reads s))\<rparr>))"
  by (simp add: normalizeRateLimitRemainingMs_def dateNow_def Let_def)

lemma normalize_remaining_bounds:
  "0 \<le> fst (normalizeRateLimitRemainingMs clock s)"
  "fst (normalizeRateLimitRemainingMs clock s) \<le> MAX_RATE_LIMIT_DELAY_MS"
  by (simp_all add: normalize_cases MAX_RATE_LIMIT_DELAY_MS_def)

lemma normalize_reads:
  "reads s < reads (snd (normalizeRateLimitRemainingMs clock s))"
  "reads (snd (normalizeRateLimitRemainingMs clock s)) \<le> reads s + 2"
  by (simp_all add: normalize_cases)


lemma noteRateLimited_until:
  "spotifyRateLimitedUntil (noteRateLimited clock toNumber response s) =
     clock (reads (snd (normalizeRateLimitRemainingMs clock s)))
       + max (fst (normalizeRateLimitRemainingMs clock s)) (rateLimitDelayMs toNumber response)"
  "reads (noteRateLimited clock toNumber response s) =
     reads (snd (normalizeRateLimitRemainingMs clock s)) + 1"
  by (simp_all add: noteRateLimited_def dateNow_def Let_def split_beta)

lemma clampRateLimitDelayMs_bounds:
  "1000 \<le> clampRateLimitDelayMs v" "clampRateLimitDelayMs v \<le> 180000"
  by (cases v; simp add: DEFAULT_RATE_LIMIT_DELAY_MS_def MAX_RATE_LIMIT_DELAY_MS_def)+

lemma rateLimitDelayMs_bounds:
  "1000 \<le> rateLimitDelayMs toNumber response" "rateLimitDelayMs toNumber response \<le> 180000"
  using clampRateLimitDelayMs_bounds
  by (simp_all add: rateLimitDelayMs_def DEFAULT_RATE_LIMIT_DELAY_MS_def
        split: option.split del: clampRateLimitDelayMs.simps)




lemma normalize_preserves_bound:
  assumes "mono clock" and "\<And>k. 0 \<le> clock k"
  shows "spotifyRateLimitedUntil (snd (normalizeRateLimitRemainingMs clock s))
           \<le> clock (reads (snd (normalizeRateLimitRemainingMs clock s))) + MAX_RATE_LIMIT_DELAY_MS"
proof (cases "spotifyRateLimitedUntil s - clock (reads s) \<le> 0")
  case True
  then show ?thesis using assms(2) [of "reads s + 1"]
    by (simp add: normalize_cases MAX_RATE_LIMIT_DELAY_MS_def)
next
  case False
  have "clock (reads s + 1) \<le> clock (reads s + 2)" using assms(1) by (simp add: monoD)
  then show ?thesis using False
    by (simp add: normalize_cases MAX_RATE_LIMIT_DELAY_MS_def)
qed

lemma initial_state_bound:
  assumes "\<And>k. 0 \<le> clock k"
  shows "spotifyRateLimitedUntil initial_state \<le> clock (reads initial_state) + MAX_RATE_LIMIT_DELAY_MS"
  using assms [of 0] by (simp add: initial_state_def MAX_RATE_LIMIT_DELAY_MS_def)

text \<open>
  Every write of the deadline keeps it at most 180 seconds ahead of the clock, so this
  bound holds before every request once it holds at the start, as it does for the initial
  state.
\<close>

lemma bounded_sleep [simp]: "bounded_ahead clock (sleep ms s) = bounded_ahead clock s"
  by (simp add: bounded_ahead_def sleep_def)

lemma bounded_normalize:
  assumes "mono clock" and "\<And>k. 0 \<le> clock k"
  shows "bounded_ahead clock (snd (normalizeRateLimitRemainingMs clock s))"
  unfolding bounded_ahead_def using assms by (rule normalize_preserves_bound)

lemma bounded_noteRateLimited:
  assumes "mono clock"
  shows "bounded_ahead clock (noteRateLimited clock toNumber response s)"
proof -
  have "clock (reads (snd (normalizeRateLimitRemainingMs clock s)))
          \<le> clock (reads (snd (normalizeRateLimitRemainingMs clock s)) + 1)"
    using assms by (simp add: monoD)
  moreover have "max (fst (normalizeRateLimitRemainingMs clock s)) (rateLimitDelayMs toNumber response)
          \<le> MAX_RATE_LIMIT_DELAY_MS"
    using normalize_remaining_bounds(2) [of clock s] rateLimitDelayMs_bounds(2) [of toNumber response]
    by (simp add: MAX_RATE_LIMIT_DELAY_MS_def)
  ultimately show ?thesis
    unfolding bounded_ahead_def noteRateLimited_until by (rule add_mono)
qed

lemma bounded_reset:
  assumes "\<And>k. 0 \<le> clock k"
  shows "bounded_ahead clock (s\<lparr>spotifyRateLimitedUntil := 0\<rparr>)"
  using assms [of "reads s"] by (simp add: bounded_ahead_def MAX_RATE_LIMIT_DELAY_MS_def)

lemma fetchLoop_bounded:
  "mono clock \<Longrightarrow> (\<And>k. 0 \<le> clock k) \<Longrightarrow> bounded_ahead clock s \<Longrightarrow>
     bounded_ahead clock
       (snd (fetchLoop clock toNumber random net attempt lastResponse lastError s))"
proof (induction clock toNumber random net attempt lastResponse lastError s
         rule: fetchLoop.induct)
  case (1 clock toNumber random net attempt lastResponse lastError s)
  define waitMs where "waitMs = fst (normalizeRateLimitRemainingMs clock s)"
  define s1 where "s1 = snd (normalizeRateLimitRemainingMs clock s)"
  define s2 where "s2 = (if 0 < waitMs then sleep waitMs s1 else s1)"
  have pr: "(waitMs, s1) = normalizeRateLimitRemainingMs clock s"
    by (simp add: waitMs_def s1_def)
  have b2: "bounded_ahead clock s2"
    unfolding s2_def s1_def using bounded_normalize [OF "1.prems"(1,2)] by simp
  show ?case
  proof (cases "attempt \<le> MAX_RETRIES")
    case False
    then show ?thesis
      using "1.prems"(3) by (subst fetchLoop.simps) (simp split: option.split)
  next
    case True
    show ?thesis
    proof (cases "net attempt")
      case (Rejected message)
      show ?thesis
      proof (cases "attempt = MAX_RETRIES")
        case True
        then have "snd (fetchLoop clock toNumber random net attempt lastResponse lastError s) = s2"
          using Rejected
          by (subst fetchLoop.simps)
             (simp add: Let_def split_beta s2_def s1_def waitMs_def)
        with b2 show ?thesis by simp
      next
        case False
        have b: "bounded_ahead clock (sleep (400 + real attempt * 250) s2)"
          using b2 by simp
        have "fetchLoop clock toNumber random net attempt lastResponse lastError s
            = fetchLoop clock toNumber random net (attempt + 1) lastResponse (Some message)
                (sleep (400 + real attempt * 250) s2)"
          using True Rejected False
          by (subst fetchLoop.simps)
             (simp add: Let_def split_beta s2_def s1_def waitMs_def)
        moreover note "1.IH"(2) [OF True refl pr s2_def Rejected False "1.prems"(1,2) b]
        ultimately show ?thesis by simp
      qed
    next
      case (Responded r)
      define s3 where "s3 = (if status r = 429 then noteRateLimited clock toNumber r s2 else s2)"
      have b3: "bounded_ahead clock s3"
        unfolding s3_def by (simp add: b2 bounded_noteRateLimited [OF "1.prems"(1)])
      show ?thesis
      proof (cases "ok r")
        case True
        then have "snd (fetchLoop clock toNumber random net attempt lastResponse lastError s)
                     = s2\<lparr>spotifyRateLimitedUntil := 0\<rparr>"
          using \<open>attempt \<le> MAX_RETRIES\<close> Responded
          by (subst fetchLoop.simps)
             (simp add: Let_def split_beta s2_def s1_def waitMs_def)
        then show ?thesis using bounded_reset [OF "1.prems"(2)] by simp
      next
        case notok: False
        define retryable where "retryable = (status r = 429 \<or> 500 \<le> status r)"
        show ?thesis
        proof (cases "\<not> retryable \<or> attempt = MAX_RETRIES")
          case True
          then have "snd (fetchLoop clock toNumber random net attempt lastResponse lastError s) = s3"
            using \<open>attempt \<le> MAX_RETRIES\<close> Responded notok
            by (subst fetchLoop.simps)
               (auto simp add: Let_def split_beta s3_def s2_def s1_def waitMs_def retryable_def)
          with b3 show ?thesis by simp
        next
          case False
          define nextDelay where "nextDelay = (if status r = 429 then rateLimitDelayMs toNumber r
                                     else retryDelayMs toNumber random r attempt)"
          have b: "bounded_ahead clock (sleep nextDelay s3)" using b3 by simp
          have "fetchLoop clock toNumber random net attempt lastResponse lastError s
              = fetchLoop clock toNumber random net (attempt + 1) (Some r) lastError
                  (sleep nextDelay s3)"
            using \<open>attempt \<le> MAX_RETRIES\<close> Responded notok False
            by (subst fetchLoop.simps)
               (auto simp add: Let_def split_beta s3_def s2_def s1_def waitMs_def retryable_def
                  nextDelay_def)
          moreover note "1.IH"(1) [OF \<open>attempt \<le> MAX_RETRIES\<close> refl pr s2_def Responded notok
              s3_def retryable_def False nextDelay_def "1.prems"(1,2) b]
          ultimately show ?thesis by simp
        qed
      qed
    qed
  qed
qed

lemma fetchWithRetry_bounded:
  assumes "mono clock" and "\<And>k. 0 \<le> clock k" and "bounded_ahead clock s"
  shows "bounded_ahead clock (snd (fetchWithRetry clock toNumber random net s))"
  unfolding fetchWithRetry_def using assms by (rule fetchLoop_bounded)

lemma initial_state_bounded:
  assumes "\<And>k. 0 \<le> clock k"
  shows "bounded_ahead clock initial_state"
  unfolding bounded_ahead_def using assms by (rule initial_state_bound)





lemma noteRateLimited_reads:
  "reads s < reads (noteRateLimited clock toNumber response s)"
  using normalize_reads(1) [of s clock] by (simp add: noteRateLimited_until)






section \<open>Options of a sync invocation\<close>

text \<open>
  Claim C3, as the code has it. The mode is full only for the string \<open>full\<close> and quick
  otherwise; the default limit is 20 in quick mode and 180 in full mode; a limit field
  that converts to a finite number is clamped into 20 to 1000, an absent one and one that
  does not convert to a finite number give the default, so the limit always lies in 20 to
  1000. Quick mode enables the liked source only and skips saved collections and recently
  played; full mode enables all three sources.
\<close>

theorem sync_options_by_mode:
  "sync_mode_of body = (if mode_field body = JString (utf16 ''full'') then Full else Quick)
   \<and> defaultLimit Quick = 20 \<and> defaultLimit Full = 180
   \<and> (limit_field body = JUndefined \<or> limit_field body = JNull
        \<longrightarrow> limit (sync_options toNumber body) = defaultLimit (sync_mode_of body))
   \<and> (\<forall>r. limit_field body \<noteq> JUndefined \<and> limit_field body \<noteq> JNull
            \<and> js_Number toNumber (limit_field body) = Num r
        \<longrightarrow> limit (sync_options toNumber body) = max 20 (min 1000 r))
   \<and> (limit_field body \<noteq> JUndefined \<and> limit_field body \<noteq> JNull
        \<and> (\<forall>r. js_Number toNumber (limit_field body) \<noteq> Num r)
        \<longrightarrow> limit (sync_options toNumber body) = defaultLimit (sync_mode_of body))
   \<and> 20 \<le> limit (sync_options toNumber body) \<and> limit (sync_options toNumber body) \<le> 1000
   \<and> (sync_mode_of body = Quick
        \<longrightarrow> includeLikedSongs (sync_options toNumber body) = Some True
          \<and> includeSavedAlbums (sync_options toNumber body) = Some False
          \<and> includeRecentlyPlayed (sync_options toNumber body) = Some False)
   \<and> (sync_mode_of body = Full
        \<longrightarrow> includeLikedSongs (sync_options toNumber body) = Some True
          \<and> includeSavedAlbums (sync_options toNumber body) = Some True
          \<and> includeRecentlyPlayed (sync_options toNumber body) = Some True)"
proof -
  have l: "limit (sync_options toNumber body) = sync_limit toNumber body"
    by (simp add: sync_options_def Let_def)
  have 1: "limit_field body = JUndefined \<or> limit_field body = JNull
        \<longrightarrow> sync_limit toNumber body = defaultLimit (sync_mode_of body)"
    by (auto simp: sync_limit_def requestedLimit_def defaultLimit_def)
  have 2: "\<forall>r. limit_field body \<noteq> JUndefined \<and> limit_field body \<noteq> JNull
            \<and> js_Number toNumber (limit_field body) = Num r
        \<longrightarrow> sync_limit toNumber body = max 20 (min 1000 r)"
    by (simp add: sync_limit_def requestedLimit_def)
  have 3: "limit_field body \<noteq> JUndefined \<and> limit_field body \<noteq> JNull
        \<and> (\<forall>r. js_Number toNumber (limit_field body) \<noteq> Num r)
        \<longrightarrow> sync_limit toNumber body = defaultLimit (sync_mode_of body)"
    by (auto simp: sync_limit_def requestedLimit_def split: js_number.split)
  have 4: "20 \<le> sync_limit toNumber body" "sync_limit toNumber body \<le> 1000"
    by (simp_all add: sync_limit_def defaultLimit_def split: js_number.split)
  have 5: "sync_mode_of body = Quick
        \<longrightarrow> includeLikedSongs (sync_options toNumber body) = Some True
          \<and> includeSavedAlbums (sync_options toNumber body) = Some False
          \<and> includeRecentlyPlayed (sync_options toNumber body) = Some False"
    by (simp add: sync_options_def Let_def)
  have 6: "sync_mode_of body = Full
        \<longrightarrow> includeLikedSongs (sync_options toNumber body) = Some True
          \<and> includeSavedAlbums (sync_options toNumber body) = Some True
          \<and> includeRecentlyPlayed (sync_options toNumber body) = Some True"
    by (simp add: sync_options_def Let_def)
  have 0: "sync_mode_of body = (if mode_field body = JString (utf16 ''full'') then Full else Quick)"
    by (simp add: sync_mode_of_def)
  have d: "defaultLimit Quick = 20" "defaultLimit Full = 180" by (simp_all add: defaultLimit_def)
  show ?thesis
    unfolding l
    by (intro conjI) (rule 0 d 1 2 3 4 5 6)+
qed

theorem sync_options_by_mode_witness:
  "sync_mode_of exampleQuickBody = Quick
   \<and> js_Number (\<lambda>_. NaN) (limit_field exampleQuickBody) = Num 5000
   \<and> sync_options (\<lambda>_. NaN) exampleQuickBody
       = \<lparr> limit = 1000, includeLikedSongs = Some True, includeSavedAlbums = Some False,
           includeRecentlyPlayed = Some False \<rparr>
   \<and> sync_mode_of exampleFullBody = Full
   \<and> sync_options (\<lambda>_. NaN) exampleFullBody
       = \<lparr> limit = 180, includeLikedSongs = Some True, includeSavedAlbums = Some True,
           includeRecentlyPlayed = Some True \<rparr>"
proof -
  have q: "sync_mode_of exampleQuickBody = Quick"
    by (simp add: sync_mode_of_def exampleQuickBody_def utf16_def)
  have f: "sync_mode_of exampleFullBody = Full"
    by (simp add: sync_mode_of_def exampleFullBody_def)
  have n: "js_Number (\<lambda>_. NaN) (limit_field exampleQuickBody) = Num 5000"
    by (simp add: exampleQuickBody_def)
  have lq: "limit_field exampleQuickBody \<noteq> JUndefined \<and> limit_field exampleQuickBody \<noteq> JNull"
    by (simp add: exampleQuickBody_def)
  have lf: "limit_field exampleFullBody = JUndefined \<or> limit_field exampleFullBody = JNull"
    by (simp add: exampleFullBody_def)
  note Q = sync_options_by_mode [of exampleQuickBody "\<lambda>_. NaN"]
  note F = sync_options_by_mode [of exampleFullBody "\<lambda>_. NaN"]
  from Q lq n have "limit (sync_options (\<lambda>_. NaN) exampleQuickBody) = max 20 (min 1000 5000)"
    by blast
  then have 1: "limit (sync_options (\<lambda>_. NaN) exampleQuickBody) = 1000" by simp
  from Q q have 2: "includeLikedSongs (sync_options (\<lambda>_. NaN) exampleQuickBody) = Some True"
    "includeSavedAlbums (sync_options (\<lambda>_. NaN) exampleQuickBody) = Some False"
    "includeRecentlyPlayed (sync_options (\<lambda>_. NaN) exampleQuickBody) = Some False"
    by blast+
  from F lf f have "limit (sync_options (\<lambda>_. NaN) exampleFullBody) = defaultLimit Full"
    by metis
  with F have 3: "limit (sync_options (\<lambda>_. NaN) exampleFullBody) = 180" by simp
  from F f have 4: "includeLikedSongs (sync_options (\<lambda>_. NaN) exampleFullBody) = Some True"
    "includeSavedAlbums (sync_options (\<lambda>_. NaN) exampleFullBody) = Some True"
    "includeRecentlyPlayed (sync_options (\<lambda>_. NaN) exampleFullBody) = Some True"
    by blast+
  have eq: "opts = \<lparr> limit = limit opts, includeLikedSongs = includeLikedSongs opts,
      includeSavedAlbums = includeSavedAlbums opts, includeRecentlyPlayed = includeRecentlyPlayed opts \<rparr>"
    for opts :: FetchUserTracksOptions by simp
  show ?thesis
    using q f n eq [of "sync_options (\<lambda>_. NaN) exampleQuickBody"]
      eq [of "sync_options (\<lambda>_. NaN) exampleFullBody"]
    unfolding 1 2 3 4 by simp
qed

text \<open>
  In quick mode the recently-played source is disabled.
\<close>

theorem sync_quick_skips_recently_played:
  "sync_mode_of \<lparr> mode_field = JString (utf16 ''quick''), limit_field = JUndefined \<rparr> = Quick
   \<and> includeRecentlyPlayed
        (sync_options (\<lambda>_. NaN) \<lparr> mode_field = JString (utf16 ''quick''), limit_field = JUndefined \<rparr>)
       = Some False"
  by (simp add: sync_options_def sync_mode_of_def utf16_def Let_def)

section \<open>Audio features in batches\<close>
















section \<open>Deduplication in the aggregator\<close>

lemma versions_Nil [simp]: "versions tid [] = []"
  by (simp add: versions_def rawTracksOf_def)

































lemma walkItems_examplePage [simp]: "walkItems (examplePage items) = items"
  by (simp add: examplePage_def spotifyFetch_def safeJson_def ok_def)







end
